theory Spec2Isabelle
  imports Complex_Main
begin

section \<open>Python strings and the regular expressions of the keyword tables\<close>

text \<open>
  A Python \<open>str\<close> is modelled as a \<open>string\<close>, one \<open>char\<close> per character.
  \<open>str.lower()\<close> maps the letters \<open>A\<close> to \<open>Z\<close> to \<open>a\<close> to \<open>z\<close> and leaves every other
  character as it is; all keyword tables of the scripts are lower-case ASCII.
\<close>

definition lower_char :: "char \<Rightarrow> char" where
  "lower_char c =
     (let n = (of_char c :: nat) in if 65 \<le> n \<and> n \<le> 90 then char_of (n + 32) else c)"

definition lower :: "string \<Rightarrow> string" where
  "lower s = map lower_char s"

text \<open>\<open>starts_with kw s\<close>: \<open>s.startswith(kw)\<close>; \<open>contains kw s\<close>: the test \<open>kw in s\<close>.\<close>

fun starts_with :: "string \<Rightarrow> string \<Rightarrow> bool" where
  "starts_with [] s = True"
| "starts_with (k # ks) [] = False"
| "starts_with (k # ks) (c # cs) = (k = c \<and> starts_with ks cs)"

fun contains :: "string \<Rightarrow> string \<Rightarrow> bool" where
  "contains kw [] = starts_with kw []"
| "contains kw (c # cs) = (starts_with kw (c # cs) \<or> contains kw cs)"

text \<open>\<open>sum(1 for k in kws if k in text)\<close>.\<close>

definition count_hits :: "string list \<Rightarrow> string \<Rightarrow> nat" where
  "count_hits kws text = length (filter (\<lambda>k. contains k text) kws)"

text \<open>
  The regular expressions of the scripts use literal characters, \<open>c?\<close>, \<open>.*\<close>, the
  escaped dot and a top-level \<open>|\<close>. A pattern is the list of its alternatives, an
  alternative a list of atoms. \<open>.\<close> matches every character but the newline (no DOTALL flag
  is ever given).
\<close>

datatype atom = Chr char | OptChr char | DotStar

type_synonym pattern = "atom list list"

definition lit :: "string \<Rightarrow> atom list" where
  "lit s = map Chr s"

text \<open>
  \<open>match_here ci as s\<close>: the atoms \<open>as\<close> match a prefix of \<open>s\<close>; \<open>ci\<close> is the flag
  \<open>re.IGNORECASE\<close>. \<open>re_search\<close> is the truth value of \<open>re.search(pattern, s)\<close>: some
  alternative matches at some position.
\<close>

definition chr_eq :: "bool \<Rightarrow> char \<Rightarrow> char \<Rightarrow> bool" where
  "chr_eq ci p c = (if ci then lower_char p = lower_char c else p = c)"

function match_here :: "bool \<Rightarrow> atom list \<Rightarrow> string \<Rightarrow> bool" where
  "match_here ci [] s = True"
| "match_here ci (Chr p # r) [] = False"
| "match_here ci (Chr p # r) (c # cs) = (chr_eq ci p c \<and> match_here ci r cs)"
| "match_here ci (OptChr p # r) [] = match_here ci r []"
| "match_here ci (OptChr p # r) (c # cs) =
     ((chr_eq ci p c \<and> match_here ci r cs) \<or> match_here ci r (c # cs))"
| "match_here ci (DotStar # r) [] = match_here ci r []"
| "match_here ci (DotStar # r) (c # cs) =
     ((c \<noteq> CHR 0x0A \<and> match_here ci (DotStar # r) cs) \<or> match_here ci r (c # cs))"
  by pat_completeness auto
termination
  by (relation "measure (\<lambda>(ci, r, s). length r + length s)") auto

fun re_search_flag :: "bool \<Rightarrow> pattern \<Rightarrow> string \<Rightarrow> bool" where
  "re_search_flag ci alts [] = list_ex (\<lambda>a. match_here ci a []) alts"
| "re_search_flag ci alts (c # cs) =
     (list_ex (\<lambda>a. match_here ci a (c # cs)) alts \<or> re_search_flag ci alts cs)"

definition re_search :: "pattern \<Rightarrow> string \<Rightarrow> bool" where
  "re_search alts s = re_search_flag False alts s"

section \<open>wfgy\_validation: the input validator\<close>

datatype IdeaComplexity = SIMPLE | MEDIUM | COMPLEX

text \<open>The \<open>value\<close> of a complexity: the string a caller hands on as the complexity hint.\<close>

fun complexity_value :: "IdeaComplexity \<Rightarrow> string" where
  "complexity_value SIMPLE = ''simple''"
| "complexity_value MEDIUM = ''medium''"
| "complexity_value COMPLEX = ''complex''"

record IdeaValidationResult =
  is_valid :: bool
  complexity :: IdeaComplexity
  missing_elements :: "string list"
  recommendations :: "string list"
  estimated_agents :: nat
  suggested_sparc_mode :: string
  suggested_topology :: string

text \<open>\<open>self.required_elements\<close>, in the order the dictionary is written.\<close>

definition required_elements :: "(string \<times> pattern) list" where
  "required_elements =
     [(''users'', [lit ''user'' @ [OptChr CHR ''s''], lit ''audience'', lit ''target'', lit ''who'']),
      (''goal'', [lit ''goal'', lit ''objective'', lit ''purpose'', lit ''problem'', lit ''solve'']),
      (''inputs'', [lit ''input'', lit ''data'', lit ''source'', lit ''feed'']),
      (''outputs'', [lit ''output'', lit ''produce'', lit ''result'', lit ''deliver'']),
      (''runtime'', [lit ''runtime'', lit ''deploy'', lit ''environment'', lit ''local'', lit ''cloud''])]"

definition sparc_mode_keywords :: "(string \<times> string list) list" where
  "sparc_mode_keywords =
     [(''architect'', [''architecture'', ''system design'', ''microservices'', ''distributed'', ''scalable'']),
      (''api'', [''api'', ''backend'', ''service'', ''rest'', ''endpoint'']),
      (''ui'', [''frontend'', ''interface'', ''web'', ''mobile'', ''dashboard'']),
      (''ml'', [''machine learning'', ''ai'', ''prediction'', ''model'', ''data science'']),
      (''tdd'', [''test'', ''testing'', ''quality'', ''tdd'', ''bdd'']),
      (''devops'', [''deploy'', ''ci/cd'', ''docker'', ''kubernetes'', ''infrastructure''])]"

text \<open>
  The loop of \<open>validate_idea_structure\<close> over the required elements: an element whose pattern
  is not found goes to \<open>missing_elements\<close>, the others to \<open>found_elements\<close>.
\<close>

fun check_elements ::
  "(string \<times> pattern) list \<Rightarrow> string \<Rightarrow> string list \<times> string list \<Rightarrow> string list \<times> string list"
where
  "check_elements [] idea_lower (missing, found) = (missing, found)"
| "check_elements ((element, pat) # rest) idea_lower (missing, found) =
     (if \<not> re_search pat idea_lower
      then check_elements rest idea_lower (missing @ [element], found)
      else check_elements rest idea_lower (missing, found @ [element]))"

text \<open>A required element is matched when its pattern is found in the lower-cased text.\<close>

definition category_matched :: "string \<Rightarrow> string \<Rightarrow> bool" where
  "category_matched element idea_text =
     (case map_of required_elements element of
        None \<Rightarrow> False
      | Some pat \<Rightarrow> re_search pat (lower idea_text))"

definition simple_indicators :: "string list" where
  "simple_indicators =
     [''simple'', ''basic'', ''single'', ''one'', ''individual'', ''personal'',
      ''task'', ''todo'', ''list'', ''note'', ''calculator'']"

definition complex_indicators :: "string list" where
  "complex_indicators =
     [''comprehensive'', ''enterprise'', ''distributed'', ''microservices'',
      ''real-time'', ''machine learning'', ''ai'', ''analytics'', ''dashboard'',
      ''multi-user'', ''scalable'', ''high-performance'', ''production'']"

definition assess_complexity :: "string \<Rightarrow> IdeaComplexity" where
  "assess_complexity idea_text =
     (let idea_lower = lower idea_text;
          simple_score = count_hits simple_indicators idea_lower;
          complex_score = count_hits complex_indicators idea_lower
      in if complex_score \<ge> 3 then COMPLEX
         else if simple_score \<ge> 2 then SIMPLE
         else MEDIUM)"

text \<open>
  \<open>max(mode_scores, key=mode_scores.get)\<close>: the first key, in the dictionary's order, whose
  score is the largest. \<open>py_max_key\<close> keeps the best entry seen so far and replaces it
  only by a strictly larger one. On an empty dictionary Python raises; the tables here
  are never empty, and the model returns \<open>None\<close> there.
\<close>

fun max_from :: "string \<times> nat \<Rightarrow> (string \<times> nat) list \<Rightarrow> string \<times> nat" where
  "max_from best [] = best"
| "max_from best (kv # rest) = max_from (if snd kv > snd best then kv else best) rest"

definition py_max_key :: "(string \<times> nat) list \<Rightarrow> (string \<times> nat) option" where
  "py_max_key scores = (case scores of [] \<Rightarrow> None | kv # rest \<Rightarrow> Some (max_from kv rest))"

definition suggest_sparc_mode :: "string \<Rightarrow> string" where
  "suggest_sparc_mode idea_text =
     (let idea_lower = lower idea_text;
          mode_scores = map (\<lambda>(mode, keywords). (mode, count_hits keywords idea_lower))
                          sparc_mode_keywords
      in case py_max_key mode_scores of
           None \<Rightarrow> ''architect''
         | Some (best_mode, score) \<Rightarrow> if score = 0 then ''architect'' else best_mode)"

definition parallel_indicators :: "string list" where
  "parallel_indicators =
     [''microservices'', ''distributed'', ''real-time'', ''analytics'',
      ''dashboard'', ''multiple'', ''integration'', ''api'']"

definition suggest_topology :: "IdeaComplexity \<Rightarrow> string \<Rightarrow> string \<times> nat" where
  "suggest_topology cplx idea_text =
     (let idea_lower = lower idea_text;
          needs_parallel = list_ex (\<lambda>indicator. contains indicator idea_lower) parallel_indicators
      in if cplx = COMPLEX \<or> needs_parallel then (''swarm'', 7)
         else if cplx = MEDIUM then (''swarm'', 5)
         else (''hive'', 3))"

definition generate_recommendations :: "string list \<Rightarrow> IdeaComplexity \<Rightarrow> string list" where
  "generate_recommendations missing cplx =
     (if ''users'' \<in> set missing
        then [''Specify target users/audience for better scope definition''] else []) @
     (if ''goal'' \<in> set missing then [''Define clear problem/goal to solve''] else []) @
     (if ''inputs'' \<in> set missing then [''Describe data sources and inputs needed''] else []) @
     (if ''outputs'' \<in> set missing then [''Specify expected outputs and deliverables''] else []) @
     (if ''runtime'' \<in> set missing then [''Mention deployment environment (local/cloud)''] else []) @
     (if cplx = SIMPLE
        then [''Consider adding more technical details for better implementation''] else []) @
     (if cplx = COMPLEX
        then [''Consider breaking down into smaller components for better manageability'']
        else [])"

definition validate_idea_structure :: "string \<Rightarrow> IdeaValidationResult" where
  "validate_idea_structure idea_text =
     (let idea_lower = lower idea_text;
          (missing, found) = check_elements required_elements idea_lower ([], []);
          cplx = assess_complexity idea_text;
          mode = suggest_sparc_mode idea_text;
          (topology, agents) = suggest_topology cplx idea_text;
          recs = generate_recommendations missing cplx
      in \<lparr> is_valid = (length found \<ge> 3),
           complexity = cplx,
           missing_elements = missing,
           recommendations = recs,
           estimated_agents = agents,
           suggested_sparc_mode = mode,
           suggested_topology = topology \<rparr>)"

section \<open>wfgy\_contradiction: the contradiction detector and resolver\<close>

datatype ContradictionType =
  ARCHITECTURE_MISMATCH | TECHNOLOGY_CONFLICT | REQUIREMENT_VIOLATION |
  PERFORMANCE_ISSUE | SECURITY_VIOLATION | SCALABILITY_PROBLEM

datatype ContradictionSeverity = SEV_LOW | SEV_MEDIUM | SEV_HIGH | SEV_CRITICAL

text \<open>The \<open>value\<close> of a severity, the key of the severity distribution.\<close>

fun severity_value :: "ContradictionSeverity \<Rightarrow> string" where
  "severity_value SEV_LOW = ''low''"
| "severity_value SEV_MEDIUM = ''medium''"
| "severity_value SEV_HIGH = ''high''"
| "severity_value SEV_CRITICAL = ''critical''"

record Contradiction =
  c_type :: ContradictionType
  severity :: ContradictionSeverity
  c_description :: string
  detected_in :: string
  expected :: string
  actual :: string
  rollback_action :: string

text \<open>
  One entry of \<open>contradiction_patterns\<close>: the text of the regular expression (it is
  quoted in the field \<open>actual\<close>), the expression itself and its description.
\<close>

record pattern_info =
  pattern_text :: string
  pattern_rx :: pattern
  pattern_description :: string

definition contradiction_patterns :: "(ContradictionType \<times> pattern_info list) list" where
  "contradiction_patterns =
     [(ARCHITECTURE_MISMATCH,
        [\<lparr> pattern_text = ''microservices.*monolith|monolith.*microservices'',
            pattern_rx = [lit ''microservices'' @ DotStar # lit ''monolith'',
                          lit ''monolith'' @ DotStar # lit ''microservices''],
            pattern_description = ''Architecture style mismatch'' \<rparr>,
         \<lparr> pattern_text = ''serverless.*stateful|stateful.*serverless'',
            pattern_rx = [lit ''serverless'' @ DotStar # lit ''stateful'',
                          lit ''stateful'' @ DotStar # lit ''serverless''],
            pattern_description = ''State management contradiction'' \<rparr>]),
      (TECHNOLOGY_CONFLICT,
        [\<lparr> pattern_text = ''python.*node'' @ [CHR 0x5C] @ ''.js.*same.*service'',
            pattern_rx = [lit ''python'' @ DotStar # lit ''node.js'' @ DotStar # lit ''same''
                            @ DotStar # lit ''service''],
            pattern_description = ''Multiple languages in single service'' \<rparr>,
         \<lparr> pattern_text = ''sql.*nosql.*same.*data'',
            pattern_rx = [lit ''sql'' @ DotStar # lit ''nosql'' @ DotStar # lit ''same''
                            @ DotStar # lit ''data''],
            pattern_description = ''Database type conflict'' \<rparr>]),
      (REQUIREMENT_VIOLATION,
        [\<lparr> pattern_text = ''real-time.*batch.*processing'',
            pattern_rx = [lit ''real-time'' @ DotStar # lit ''batch'' @ DotStar # lit ''processing''],
            pattern_description = ''Processing mode contradiction'' \<rparr>,
         \<lparr> pattern_text = ''high-availability.*single.*point.*failure'',
            pattern_rx = [lit ''high-availability'' @ DotStar # lit ''single'' @ DotStar # lit ''point''
                            @ DotStar # lit ''failure''],
            pattern_description = ''Availability requirement violation'' \<rparr>]),
      (PERFORMANCE_ISSUE,
        [\<lparr> pattern_text = ''high-performance.*interpreted.*language'',
            pattern_rx = [lit ''high-performance'' @ DotStar # lit ''interpreted''
                            @ DotStar # lit ''language''],
            pattern_description = ''Performance expectation mismatch'' \<rparr>,
         \<lparr> pattern_text = ''low-latency.*network.*call'',
            pattern_rx = [lit ''low-latency'' @ DotStar # lit ''network'' @ DotStar # lit ''call''],
            pattern_description = ''Latency expectation contradiction'' \<rparr>]),
      (SECURITY_VIOLATION,
        [\<lparr> pattern_text = ''secure.*plain.*text.*password'',
            pattern_rx = [lit ''secure'' @ DotStar # lit ''plain'' @ DotStar # lit ''text''
                            @ DotStar # lit ''password''],
            pattern_description = ''Security practice violation'' \<rparr>,
         \<lparr> pattern_text = ''authentication.*no.*auth'',
            pattern_rx = [lit ''authentication'' @ DotStar # lit ''no'' @ DotStar # lit ''auth''],
            pattern_description = ''Authentication requirement violation'' \<rparr>]),
      (SCALABILITY_PROBLEM,
        [\<lparr> pattern_text = ''scalable.*single.*server'',
            pattern_rx = [lit ''scalable'' @ DotStar # lit ''single'' @ DotStar # lit ''server''],
            pattern_description = ''Scalability architecture contradiction'' \<rparr>,
         \<lparr> pattern_text = ''distributed.*centralized.*database'',
            pattern_rx = [lit ''distributed'' @ DotStar # lit ''centralized''
                            @ DotStar # lit ''database''],
            pattern_description = ''Distribution contradiction'' \<rparr>])]"

definition technology_compatibility :: "(string \<times> string list) list" where
  "technology_compatibility =
     [(''python'', [''fastapi'', ''django'', ''flask'', ''postgresql'', ''redis'']),
      (''nodejs'', [''express'', ''nestjs'', ''mongodb'', ''redis'', ''postgresql'']),
      (''react'', [''typescript'', ''javascript'', ''nodejs'', ''express'']),
      (''microservices'', [''docker'', ''kubernetes'', ''api-gateway'', ''service-mesh'']),
      (''serverless'', [''aws-lambda'', ''azure-functions'', ''stateless'', ''event-driven'']),
      (''real-time'', [''websockets'', ''server-sent-events'', ''polling'']),
      (''high-performance'', [''golang'', ''rust'', ''c++'', ''compiled-languages''])]"

definition architecture_constraints :: "(string \<times> string list) list" where
  "architecture_constraints =
     [(''microservices'', [''distributed'', ''api-gateway'', ''service-discovery'']),
      (''monolith'', [''single-deployment'', ''shared-database'']),
      (''serverless'', [''stateless'', ''event-driven'', ''auto-scaling'']),
      (''real-time'', [''websockets'', ''low-latency'', ''persistent-connections'']),
      (''high-availability'', [''redundancy'', ''load-balancing'', ''failover''])]"

fun assess_severity :: "ContradictionType \<Rightarrow> ContradictionSeverity" where
  "assess_severity ARCHITECTURE_MISMATCH = SEV_HIGH"
| "assess_severity TECHNOLOGY_CONFLICT = SEV_MEDIUM"
| "assess_severity REQUIREMENT_VIOLATION = SEV_CRITICAL"
| "assess_severity PERFORMANCE_ISSUE = SEV_HIGH"
| "assess_severity SECURITY_VIOLATION = SEV_CRITICAL"
| "assess_severity SCALABILITY_PROBLEM = SEV_HIGH"

fun get_rollback_action :: "ContradictionType \<Rightarrow> string" where
  "get_rollback_action ARCHITECTURE_MISMATCH = ''Rollback to previous architecture decision''"
| "get_rollback_action TECHNOLOGY_CONFLICT = ''Review and align technology stack''"
| "get_rollback_action REQUIREMENT_VIOLATION = ''Rollback to requirement validation stage''"
| "get_rollback_action PERFORMANCE_ISSUE = ''Optimize or change technology choice''"
| "get_rollback_action SECURITY_VIOLATION = ''Rollback to security review stage''"
| "get_rollback_action SCALABILITY_PROBLEM = ''Reconsider architecture for scalability''"

definition tech_keywords :: "string list" where
  "tech_keywords =
     [''python'', ''nodejs'', ''react'', ''angular'', ''vue'', ''java'', ''golang'', ''rust'',
      ''postgresql'', ''mongodb'', ''redis'', ''mysql'', ''sqlite'',
      ''docker'', ''kubernetes'', ''aws'', ''azure'', ''gcp'',
      ''express'', ''fastapi'', ''django'', ''flask'', ''spring'']"

definition extract_technologies :: "string \<Rightarrow> string list" where
  "extract_technologies text = filter (\<lambda>tech. contains tech (lower text)) tech_keywords"

definition arch_keywords :: "string list" where
  "arch_keywords =
     [''microservices'', ''monolith'', ''serverless'', ''real-time'',
      ''high-availability'', ''scalable'', ''distributed'', ''centralized'']"

definition extract_architecture_requirements :: "string \<Rightarrow> string list" where
  "extract_architecture_requirements text = filter (\<lambda>arch. contains arch (lower text)) arch_keywords"

definition are_compatible :: "string \<Rightarrow> string \<Rightarrow> bool" where
  "are_compatible tech1 tech2 =
     list_ex (\<lambda>(tech, compatible_list).
                 (tech1 = tech \<and> tech2 \<in> set compatible_list) \<or>
                 (tech2 = tech \<and> tech1 \<in> set compatible_list))
       technology_compatibility"

text \<open>
  How an f-string prints a list of strings: \<open>['a', 'b']\<close>. The entries of the constraint
  table hold no quote and no backslash, so each prints between single quotes.
\<close>

fun join_with :: "string \<Rightarrow> string list \<Rightarrow> string" where
  "join_with sep [] = []"
| "join_with sep [x] = x"
| "join_with sep (x # y # ys) = x @ sep @ join_with sep (y # ys)"

definition repr_str_list :: "string list \<Rightarrow> string" where
  "repr_str_list xs =
     ''['' @ join_with '', '' (map (\<lambda>x. [CHR 0x27] @ x @ [CHR 0x27]) xs) @ '']''"

definition pattern_contradictions :: "string \<Rightarrow> Contradiction list" where
  "pattern_contradictions implementation_output =
     concat (map (\<lambda>(contradiction_type, patterns).
        concat (map (\<lambda>info.
          if re_search_flag True (pattern_rx info) implementation_output
          then [\<lparr> c_type = contradiction_type,
                   severity = assess_severity contradiction_type,
                   c_description = pattern_description info,
                   detected_in = ''implementation_output'',
                   expected = ''Consistent architecture and technology choices'',
                   actual = ''Found: '' @ pattern_text info,
                   rollback_action = get_rollback_action contradiction_type \<rparr>]
          else []) patterns)) contradiction_patterns)"

definition check_technology_compatibility :: "string \<Rightarrow> string \<Rightarrow> Contradiction list" where
  "check_technology_compatibility idea_text implementation_output =
     (let idea_tech = extract_technologies idea_text;
          impl_tech = extract_technologies implementation_output
      in concat (map (\<lambda>tech1.
           concat (map (\<lambda>tech2.
             if tech1 \<noteq> tech2 \<and> \<not> are_compatible tech1 tech2
             then [\<lparr> c_type = TECHNOLOGY_CONFLICT,
                      severity = SEV_MEDIUM,
                      c_description = ''Incompatible technologies: '' @ tech1 @ '' and '' @ tech2,
                      detected_in = ''technology_analysis'',
                      expected = ''Compatible technology stack with '' @ tech1,
                      actual = ''Found incompatible '' @ tech2,
                      rollback_action = ''Review and align technology choices'' \<rparr>]
             else []) impl_tech)) idea_tech))"

definition constraints_get :: "string \<Rightarrow> string list" where
  "constraints_get arch_req =
     (case map_of architecture_constraints arch_req of None \<Rightarrow> [] | Some comps \<Rightarrow> comps)"

definition check_architecture_constraints :: "string \<Rightarrow> string \<Rightarrow> Contradiction list" where
  "check_architecture_constraints idea_text implementation_output =
     (let idea_arch = extract_architecture_requirements idea_text;
          impl_arch = extract_architecture_requirements implementation_output
      in concat (map (\<lambda>arch_req.
           if arch_req \<notin> set impl_arch
           then (let required_components = constraints_get arch_req;
                     missing_components = filter (\<lambda>comp. comp \<notin> set impl_arch) required_components
                 in if missing_components \<noteq> []
                    then [\<lparr> c_type = ARCHITECTURE_MISMATCH,
                             severity = SEV_HIGH,
                             c_description = ''Missing architecture components for '' @ arch_req,
                             detected_in = ''architecture_analysis'',
                             expected = ''Architecture '' @ arch_req @ '' with components: ''
                                          @ repr_str_list required_components,
                             actual = ''Missing: '' @ repr_str_list missing_components,
                             rollback_action = ''Add missing architecture components'' \<rparr>]
                    else [])
           else []) idea_arch))"

definition detect_contradictions :: "string \<Rightarrow> string \<Rightarrow> Contradiction list" where
  "detect_contradictions idea_text implementation_output =
     pattern_contradictions implementation_output
     @ check_technology_compatibility idea_text implementation_output
     @ check_architecture_constraints idea_text implementation_output"

text \<open>\<open>counts[severity] += 1\<close> on the dictionary of the four severity names.\<close>

fun count_severity_levels :: "Contradiction list \<Rightarrow> (string \<times> nat) list" where
  "count_severity_levels [] = [(''low'', 0), (''medium'', 0), (''high'', 0), (''critical'', 0)]"
| "count_severity_levels cs =
     map (\<lambda>(k, n). if k = severity_value (severity (last cs)) then (k, n + 1) else (k, n))
       (count_severity_levels (butlast cs))"

definition needs_rollback_of :: "Contradiction list \<Rightarrow> bool" where
  "needs_rollback_of contradictions =
     (let critical_contradictions = filter (\<lambda>c. severity c = SEV_CRITICAL) contradictions
      in if critical_contradictions \<noteq> [] then True
         else (let high_contradictions = filter (\<lambda>c. severity c = SEV_HIGH) contradictions
               in if length high_contradictions \<ge> 2 then True else False))"

definition generate_corrective_actions :: "Contradiction list \<Rightarrow> string list" where
  "generate_corrective_actions contradictions =
     map (\<lambda>c. if severity c \<in> {SEV_CRITICAL, SEV_HIGH}
               then ''CRITICAL: '' @ rollback_action c
               else ''WARNING: '' @ rollback_action c) contradictions"

record ResolveResult =
  contradictions_found :: nat
  severity_distribution :: "(string \<times> nat) list"
  needs_rollback :: bool
  contradictions :: "Contradiction list"
  corrective_actions :: "string list"
  can_proceed :: bool

definition resolve_contradictions :: "string \<Rightarrow> string \<Rightarrow> ResolveResult" where
  "resolve_contradictions idea_text implementation_output =
     (let cs = detect_contradictions idea_text implementation_output;
          severity_counts = count_severity_levels cs;
          nr = needs_rollback_of cs;
          actions = generate_corrective_actions cs
      in \<lparr> contradictions_found = length cs,
           severity_distribution = severity_counts,
           needs_rollback = nr,
           contradictions = cs,
           corrective_actions = actions,
           can_proceed = (\<not> nr) \<rparr>)"

section \<open>wfgy\_attention: the attention manager and the optimizer\<close>

text \<open>
  Python's floats are taken as exact rationals. The theorems below use the scores through
  the catalog's literals and through comparisons only; the truncations \<open>int(...)\<close> of the
  time estimates are part of the model for completeness and stand in no theorem.
\<close>

datatype AttentionPriority = PRIO_CRITICAL | PRIO_HIGH | PRIO_MEDIUM | PRIO_LOW

fun priority_value :: "AttentionPriority \<Rightarrow> string" where
  "priority_value PRIO_CRITICAL = ''critical''"
| "priority_value PRIO_HIGH = ''high''"
| "priority_value PRIO_MEDIUM = ''medium''"
| "priority_value PRIO_LOW = ''low''"

datatype ResourceType = AGENTS | TIME | MEMORY | COMPLEXITY

record AttentionTarget =
  name :: string
  priority :: AttentionPriority
  resource_type :: ResourceType
  impact_score :: rat
  t_description :: string
  optimization_strategy :: string

text \<open>The manager: the catalog (a dictionary from names to target objects) and the one
  resource limit that is ever read.\<close>

record BBAMManager =
  attention_targets :: "(string \<times> AttentionTarget) list"
  max_memory_per_agent :: nat
  optimization_strategies :: "(string \<times> string list) list"

definition define_attention_targets :: "(string \<times> AttentionTarget) list" where
  "define_attention_targets =
     [(''idea_clarity'',
        \<lparr> name = ''idea_clarity'', priority = PRIO_CRITICAL, resource_type = AGENTS,
          impact_score = 95 / 100,
          t_description = ''Clarity and completeness of user idea'',
          optimization_strategy = ''Validate idea structure before orchestration'' \<rparr>),
      (''sparc_mode_selection'',
        \<lparr> name = ''sparc_mode_selection'', priority = PRIO_CRITICAL, resource_type = AGENTS,
          impact_score = 90 / 100,
          t_description = ''Optimal SPARC mode for project type'',
          optimization_strategy = ''Analyze idea content for mode selection'' \<rparr>),
      (''topology_optimization'',
        \<lparr> name = ''topology_optimization'', priority = PRIO_CRITICAL, resource_type = AGENTS,
          impact_score = 85 / 100,
          t_description = ''Optimal agent topology and count'',
          optimization_strategy = ''Match topology to project complexity'' \<rparr>),
      (''agent_coordination'',
        \<lparr> name = ''agent_coordination'', priority = PRIO_HIGH, resource_type = TIME,
          impact_score = 75 / 100,
          t_description = ''Efficient agent communication and coordination'',
          optimization_strategy = ''Optimize communication patterns'' \<rparr>),
      (''memory_management'',
        \<lparr> name = ''memory_management'', priority = PRIO_HIGH, resource_type = MEMORY,
          impact_score = 70 / 100,
          t_description = ''Efficient memory usage across agents'',
          optimization_strategy = ''Implement memory sharing and cleanup'' \<rparr>),
      (''error_handling'',
        \<lparr> name = ''error_handling'', priority = PRIO_HIGH, resource_type = COMPLEXITY,
          impact_score = 65 / 100,
          t_description = ''Robust error detection and recovery'',
          optimization_strategy = ''Implement comprehensive error handling'' \<rparr>),
      (''progress_tracking'',
        \<lparr> name = ''progress_tracking'', priority = PRIO_MEDIUM, resource_type = TIME,
          impact_score = 50 / 100,
          t_description = ''Real-time progress monitoring'',
          optimization_strategy = ''Implement progress indicators'' \<rparr>),
      (''resource_monitoring'',
        \<lparr> name = ''resource_monitoring'', priority = PRIO_MEDIUM, resource_type = MEMORY,
          impact_score = 45 / 100,
          t_description = ''System resource usage monitoring'',
          optimization_strategy = ''Monitor CPU, memory, and network usage'' \<rparr>),
      (''logging'',
        \<lparr> name = ''logging'', priority = PRIO_LOW, resource_type = MEMORY,
          impact_score = 25 / 100,
          t_description = ''Detailed logging and debugging'',
          optimization_strategy = ''Implement structured logging'' \<rparr>),
      (''documentation'',
        \<lparr> name = ''documentation'', priority = PRIO_LOW, resource_type = TIME,
          impact_score = 20 / 100,
          t_description = ''Real-time documentation generation'',
          optimization_strategy = ''Generate documentation as needed'' \<rparr>)]"

definition define_optimization_strategies :: "(string \<times> string list) list" where
  "define_optimization_strategies =
     [(''idea_clarity'',
        [''Validate idea structure before processing'',
         ''Request clarification for missing elements'',
         ''Suggest improvements for better implementation'']),
      (''sparc_mode_selection'',
        [''Analyze idea content for optimal mode'',
         ''Consider project complexity and requirements'',
         ''Match mode to project characteristics'']),
      (''topology_optimization'',
        [''Use swarm for complex, parallel tasks'',
         ''Use hive-mind for focused, sequential tasks'',
         ''Optimize agent count based on complexity'']),
      (''agent_coordination'',
        [''Implement efficient communication patterns'',
         ''Reduce inter-agent dependencies'',
         ''Optimize task distribution'']),
      (''memory_management'',
        [''Implement memory sharing between agents'',
         ''Clean up unused resources'',
         ''Monitor memory usage patterns'']),
      (''error_handling'',
        [''Implement comprehensive error detection'',
         ''Provide clear error messages'',
         ''Enable automatic recovery where possible''])]"

text \<open>\<open>BBAMManager()\<close>: the manager as its constructor builds it.\<close>

definition new_manager :: BBAMManager where
  "new_manager =
     \<lparr> attention_targets = define_attention_targets,
       max_memory_per_agent = 512,
       optimization_strategies = define_optimization_strategies \<rparr>"

definition clarity_indicators :: "(string \<times> pattern) list" where
  "clarity_indicators =
     [(''users'', [lit ''user'' @ [OptChr CHR ''s''], lit ''audience'', lit ''target'', lit ''who'']),
      (''goal'', [lit ''goal'', lit ''objective'', lit ''purpose'', lit ''problem'', lit ''solve'']),
      (''inputs'', [lit ''input'', lit ''data'', lit ''source'', lit ''feed'']),
      (''outputs'', [lit ''output'', lit ''produce'', lit ''result'', lit ''deliver'']),
      (''runtime'', [lit ''runtime'', lit ''deploy'', lit ''environment'', lit ''local'', lit ''cloud'']),
      (''technical_details'',
         [lit ''api'', lit ''database'', lit ''framework'', lit ''language'', lit ''architecture''])]"

text \<open>The counting loop of \<open>_analyze_idea_clarity\<close>.\<close>

fun count_found :: "(string \<times> pattern) list \<Rightarrow> string \<Rightarrow> nat \<Rightarrow> nat" where
  "count_found [] idea_lower found_elements = found_elements"
| "count_found ((element, pat) # rest) idea_lower found_elements =
     count_found rest idea_lower
       (if re_search pat idea_lower then found_elements + 1 else found_elements)"

definition technical_bonus :: "string \<Rightarrow> rat" where
  "technical_bonus idea_lower =
     (if re_search [lit ''technical'', lit ''architecture'', lit ''framework''] idea_lower
      then 1 / 10 else 0)"

definition vagueness_penalty :: "string \<Rightarrow> rat" where
  "vagueness_penalty idea_lower =
     (if re_search [lit ''something'', lit ''anything'', lit ''whatever''] idea_lower
      then 1 / 10 else 0)"

definition analyze_idea_clarity :: "string \<Rightarrow> rat" where
  "analyze_idea_clarity idea_text =
     (let idea_lower = lower idea_text;
          found_elements = count_found clarity_indicators idea_lower 0;
          total_elements = length clarity_indicators;
          base_score = of_nat found_elements / of_nat total_elements
      in min 1 (max 0 (base_score + technical_bonus idea_lower - vagueness_penalty idea_lower)))"

definition mode_keywords :: "(string \<times> string list) list" where
  "mode_keywords =
     [(''architect'', [''architecture'', ''system design'', ''microservices'', ''distributed'', ''scalable'']),
      (''api'', [''api'', ''backend'', ''service'', ''rest'', ''endpoint'']),
      (''ui'', [''frontend'', ''interface'', ''web'', ''mobile'', ''dashboard'']),
      (''ml'', [''machine learning'', ''ai'', ''prediction'', ''model'', ''data science'']),
      (''tdd'', [''test'', ''testing'', ''quality'', ''tdd'', ''bdd'']),
      (''devops'', [''deploy'', ''ci/cd'', ''docker'', ''kubernetes'', ''infrastructure''])]"

definition determine_optimal_sparc_mode :: "string \<Rightarrow> string" where
  "determine_optimal_sparc_mode idea_text =
     (let idea_lower = lower idea_text;
          mode_scores = map (\<lambda>(mode, keywords). (mode, count_hits keywords idea_lower))
                          mode_keywords
      in case py_max_key mode_scores of
           None \<Rightarrow> ''architect''
         | Some (best_mode, score) \<Rightarrow> if score > 0 then best_mode else ''architect'')"

record Topology =
  topology :: string
  agent_count :: nat
  reasoning :: string

text \<open>How an f-string prints a natural number.\<close>

fun show_nat :: "nat \<Rightarrow> string" where
  "show_nat n =
     (if n < 10 then [char_of (48 + n)] else show_nat (n div 10) @ [char_of (48 + n mod 10)])"

declare show_nat.simps [simp del]

text \<open>\<open>complexity_scores.get(complexity.lower(), 2)\<close>.\<close>

definition complexity_scores_get :: "string \<Rightarrow> nat" where
  "complexity_scores_get cplx =
     (case map_of [(''simple'', 1), (''medium'', 2), (''complex'', 3)] (lower cplx) of
        None \<Rightarrow> 2 | Some n \<Rightarrow> n)"

definition opt_parallel_indicators :: "string list" where
  "opt_parallel_indicators =
     [''microservices'', ''distributed'', ''real-time'', ''analytics'',
      ''dashboard'', ''multiple'', ''integration'', ''api'']"

definition determine_optimal_topology :: "string \<Rightarrow> string \<Rightarrow> Topology" where
  "determine_optimal_topology cplx idea_text =
     (let complexity_score = complexity_scores_get cplx;
          idea_lower = lower idea_text;
          parallel_score = count_hits opt_parallel_indicators idea_lower;
          (topo, agents) =
            (if complexity_score \<ge> 3 \<or> parallel_score \<ge> 2
               then (''swarm'', min 8 (5 + complexity_score))
             else if complexity_score \<ge> 2 then (''swarm'', 5)
             else (''hive'', 3))
      in \<lparr> topology = topo,
           agent_count = agents,
           reasoning = ''Complexity: '' @ show_nat complexity_score
                        @ '', Parallel indicators: '' @ show_nat parallel_score \<rparr>)"

record ResourceRequirements =
  estimated_time_seconds :: int
  memory_requirements_mb :: nat
  complexity_score :: rat
  req_agent_count :: nat

definition complexity_multiplier_get :: "string \<Rightarrow> rat" where
  "complexity_multiplier_get cplx =
     (case map_of [(''simple'', 1), (''medium'', 3 / 2), (''complex'', 5 / 2)] (lower cplx) of
        None \<Rightarrow> 3 / 2 | Some m \<Rightarrow> m)"

definition calculate_resource_requirements ::
  "BBAMManager \<Rightarrow> rat \<Rightarrow> Topology \<Rightarrow> string \<Rightarrow> ResourceRequirements" where
  "calculate_resource_requirements mgr clarity_score topo cplx =
     (let agents = agent_count topo;
          base_time = 300;
          time_multiplier = complexity_multiplier_get cplx;
          estimated_time = base_time * time_multiplier * (1 + (1 - clarity_score));
          memory_per_agent = max_memory_per_agent mgr;
          total_memory = agents * memory_per_agent;
          cscore = min 10 (of_nat agents * (3 / 2) + (1 - clarity_score) * 3)
      in \<lparr> estimated_time_seconds = \<lfloor>estimated_time\<rfloor>,
           memory_requirements_mb = total_memory,
           complexity_score = cscore,
           req_agent_count = agents \<rparr>)"

definition generate_optimization_recommendations :: "rat \<Rightarrow> string \<Rightarrow> Topology \<Rightarrow> string list" where
  "generate_optimization_recommendations clarity_score sparc_mode topo =
     (if clarity_score < 6 / 10
        then [''Request clarification for missing project elements'',
              ''Suggest specific technical requirements'']
        else []) @
     (if sparc_mode = ''architect''
        then [''Focus on system architecture and design patterns'']
      else if sparc_mode = ''api''
        then [''Prioritize API design and backend implementation'']
      else if sparc_mode = ''ui''
        then [''Focus on user interface and frontend development'']
      else []) @
     (if topology topo = ''swarm''
        then [''Optimize for parallel processing and agent coordination'']
        else [''Focus on sequential task execution and agent efficiency''])"

text \<open>
  The loop of \<open>_get_attention_priorities\<close> assigns to the field \<open>priority\<close> of the target
  objects of the catalog itself: \<open>promote\<close> is the assignment to one object.
\<close>

definition promote :: "rat \<Rightarrow> string \<Rightarrow> AttentionTarget \<Rightarrow> AttentionTarget" where
  "promote clarity_score cplx target =
     (if name target = ''idea_clarity'' \<and> clarity_score < 7 / 10
        then target\<lparr>priority := PRIO_CRITICAL\<rparr>
      else if name target = ''topology_optimization'' \<and> lower cplx = ''complex''
        then target\<lparr>priority := PRIO_CRITICAL\<rparr>
      else target)"

text \<open>
  Python compares strings character by character and tuples component by component;
  \<open>sorted(..., reverse=True)\<close> is stable: it puts the larger keys first and keeps the
  given order among equal keys.
\<close>

fun str_less :: "string \<Rightarrow> string \<Rightarrow> bool" where
  "str_less [] [] = False"
| "str_less [] (y # ys) = True"
| "str_less (x # xs) [] = False"
| "str_less (x # xs) (y # ys) =
     ((of_char x :: nat) < of_char y \<or> (x = y \<and> str_less xs ys))"

definition key_less :: "string \<times> rat \<Rightarrow> string \<times> rat \<Rightarrow> bool" where
  "key_less a b = (if fst a = fst b then snd a < snd b else str_less (fst a) (fst b))"

fun insort_desc :: "('a \<Rightarrow> string \<times> rat) \<Rightarrow> 'a \<Rightarrow> 'a list \<Rightarrow> 'a list" where
  "insort_desc k x [] = [x]"
| "insort_desc k x (y # ys) =
     (if key_less (k y) (k x) then x # y # ys else y # insort_desc k x ys)"

definition sorted_reverse :: "('a \<Rightarrow> string \<times> rat) \<Rightarrow> 'a list \<Rightarrow> 'a list" where
  "sorted_reverse k xs = foldl (\<lambda>acc x. insort_desc k x acc) [] xs"

definition get_attention_priorities ::
  "BBAMManager \<Rightarrow> rat \<Rightarrow> string \<Rightarrow> AttentionTarget list \<times> BBAMManager" where
  "get_attention_priorities mgr clarity_score cplx =
     (let mgr' = mgr\<lparr>attention_targets :=
                     map (\<lambda>(key, target). (key, promote clarity_score cplx target))
                       (attention_targets mgr)\<rparr>;
          all_targets = map snd (attention_targets mgr');
          sorted_targets =
            sorted_reverse (\<lambda>x. (priority_value (priority x), impact_score x)) all_targets
      in (take 5 sorted_targets, mgr'))"

record Analysis =
  clarity_score :: rat
  optimal_sparc_mode :: string
  optimal_topology :: Topology
  resource_requirements :: ResourceRequirements
  optimization_recommendations :: "string list"
  attention_priorities :: "AttentionTarget list"

definition analyze_attention_requirements ::
  "BBAMManager \<Rightarrow> string \<Rightarrow> string \<Rightarrow> Analysis \<times> BBAMManager" where
  "analyze_attention_requirements mgr idea_text project_complexity =
     (let clarity = analyze_idea_clarity idea_text;
          sparc_mode = determine_optimal_sparc_mode idea_text;
          topo = determine_optimal_topology project_complexity idea_text;
          requirements = calculate_resource_requirements mgr clarity topo project_complexity;
          optimizations = generate_optimization_recommendations clarity sparc_mode topo;
          (priorities, mgr') = get_attention_priorities mgr clarity project_complexity
      in (\<lparr> clarity_score = clarity,
            optimal_sparc_mode = sparc_mode,
            optimal_topology = topo,
            resource_requirements = requirements,
            optimization_recommendations = optimizations,
            attention_priorities = priorities \<rparr>, mgr'))"

record OptimizedParameters =
  p_sparc_mode :: string
  p_topology :: string
  p_agent_count :: nat
  timeout_seconds :: int
  memory_limit_mb :: nat
  complexity_threshold :: rat

definition generate_optimized_parameters :: "Analysis \<Rightarrow> OptimizedParameters" where
  "generate_optimized_parameters analysis =
     \<lparr> p_sparc_mode = optimal_sparc_mode analysis,
       p_topology = topology (optimal_topology analysis),
       p_agent_count = agent_count (optimal_topology analysis),
       timeout_seconds = estimated_time_seconds (resource_requirements analysis),
       memory_limit_mb = memory_requirements_mb (resource_requirements analysis),
       complexity_threshold = complexity_score (resource_requirements analysis) \<rparr>"

record PlanPhase =
  phase :: string
  phase_description :: string
  phase_priority :: string
  estimated_time :: int
  agents_required :: nat

definition create_execution_plan :: "Analysis \<Rightarrow> OptimizedParameters \<Rightarrow> PlanPhase list" where
  "create_execution_plan analysis params =
     [\<lparr> phase = ''validation'', phase_description = ''Validate idea clarity and structure'',
        phase_priority = ''critical'', estimated_time = 60, agents_required = 1 \<rparr>,
      \<lparr> phase = ''planning'',
        phase_description = ''Create implementation plan using '' @ p_sparc_mode params @ '' mode'',
        phase_priority = ''critical'', estimated_time = 120,
        agents_required = p_agent_count params \<rparr>,
      \<lparr> phase = ''implementation'',
        phase_description = ''Implement project using '' @ p_topology params @ '' topology'',
        phase_priority = ''high'', estimated_time = timeout_seconds params - 180,
        agents_required = p_agent_count params \<rparr>,
      \<lparr> phase = ''validation'', phase_description = ''Validate implementation and run tests'',
        phase_priority = ''high'', estimated_time = 120, agents_required = 2 \<rparr>]"

record Allocation =
  agents_total :: nat
  critical_tasks :: int
  high_priority_tasks :: int
  monitoring_tasks :: int
  memory_total_mb :: nat
  per_agent_mb :: nat
  reserve_mb :: nat
  total_seconds :: int
  validation_phase :: int
  planning_phase :: int
  implementation_phase :: int
  testing_phase :: int

definition allocate_resources :: "Analysis \<Rightarrow> Allocation" where
  "allocate_resources analysis =
     (let requirements = resource_requirements analysis
      in \<lparr> agents_total = req_agent_count requirements,
           critical_tasks = \<lfloor>(of_nat (req_agent_count requirements) :: rat) * (6 / 10)\<rfloor>,
           high_priority_tasks = \<lfloor>(of_nat (req_agent_count requirements) :: rat) * (3 / 10)\<rfloor>,
           monitoring_tasks = \<lfloor>(of_nat (req_agent_count requirements) :: rat) * (1 / 10)\<rfloor>,
           memory_total_mb = memory_requirements_mb requirements,
           per_agent_mb = memory_requirements_mb requirements div req_agent_count requirements,
           reserve_mb = 512,
           total_seconds = estimated_time_seconds requirements,
           validation_phase = 60,
           planning_phase = 120,
           implementation_phase = estimated_time_seconds requirements - 180,
           testing_phase = 120 \<rparr>)"

record Optimization =
  analysis :: Analysis
  optimized_parameters :: OptimizedParameters
  execution_plan :: "PlanPhase list"
  resource_allocation :: Allocation

definition optimize_orchestration ::
  "BBAMManager \<Rightarrow> string \<Rightarrow> string \<Rightarrow> Optimization \<times> BBAMManager" where
  "optimize_orchestration mgr idea_text project_complexity =
     (let (an, mgr') = analyze_attention_requirements mgr idea_text project_complexity;
          params = generate_optimized_parameters an;
          plan = create_execution_plan an params
      in (\<lparr> analysis = an,
            optimized_parameters = params,
            execution_plan = plan,
            resource_allocation = allocate_resources an \<rparr>, mgr'))"

section \<open>wfgy\_pipeline: the staged pipeline executor\<close>

datatype PipelineStage = VALIDATION | ANALYSIS | PLANNING | IMPLEMENTATION | TESTING | DEPLOYMENT

text \<open>The stages in the order of the enumeration, the order \<open>for stage in PipelineStage\<close> visits.\<close>

definition all_stages :: "PipelineStage list" where
  "all_stages = [VALIDATION, ANALYSIS, PLANNING, IMPLEMENTATION, TESTING, DEPLOYMENT]"

datatype PipelineStatus = PENDING | RUNNING | SUCCESS | FAILED | ROLLBACK

record PipelineStep =
  stage :: PipelineStage
  command :: string
  dependencies :: "PipelineStage list"
  rollback_command :: "string option"
  validation_check :: "string option"
  timeout :: nat

record PipelineResult =
  r_stage :: PipelineStage
  status :: PipelineStatus
  r_output :: string
  r_error :: "string option"
  execution_time :: rat

text \<open>
  What the \<open>try\<close> block of \<open>_execute_step\<close> can meet: the command ran and left a return code,
  its standard output, its standard error and the elapsed time; it ran into its timeout;
  or something in the block raised another exception (with its message).
\<close>

datatype outcome = Exited int string string rat | TimeoutExpired | Raised string

text \<open>
  The outside world of one run: \<open>run_command\<close> answers the command of a step (with its
  timeout), \<open>run_rollback\<close> answers a rollback command with \<open>True\<close> when it returned 0 and
  \<open>False\<close> when \<open>subprocess.run(..., check=True)\<close> raised \<open>CalledProcessError\<close>. Both may
  change the world \<open>'w\<close>.
\<close>

record 'w runner =
  run_command :: "'w \<Rightarrow> string \<Rightarrow> nat \<Rightarrow> outcome \<times> 'w"
  run_rollback :: "'w \<Rightarrow> string \<Rightarrow> bool \<times> 'w"

text \<open>
  The pipeline object: \<open>results\<close> and \<open>pipeline_steps\<close> are its attributes; \<open>executed\<close> and
  \<open>rolled_back\<close> record, in order, the step commands whose \<open>try\<close> block was entered (also
  when the block raised before the command started) and the rollback commands handed to
  the world.
\<close>

record 'w pipeline =
  results :: "PipelineStage \<rightharpoonup> PipelineResult"
  pipeline_steps :: "PipelineStage \<Rightarrow> PipelineStep"
  executed :: "string list"
  rolled_back :: "string list"
  world :: 'w

fun define_pipeline_steps :: "PipelineStage \<Rightarrow> PipelineStep" where
  "define_pipeline_steps VALIDATION =
     \<lparr> stage = VALIDATION, command = ''python3 wfgy_validation.py'', dependencies = [],
       rollback_command = Some (''echo '' @ [CHR 0x27] @ ''Validation failed - cannot proceed'' @ [CHR 0x27]),
       validation_check = Some ''validate_idea_structure'', timeout = 300 \<rparr>"
| "define_pipeline_steps ANALYSIS =
     \<lparr> stage = ANALYSIS,
       command = ''claude-flow sparc architect '' @ [CHR 0x27]
                   @ ''Analyze requirements and suggest architecture'' @ [CHR 0x27],
       dependencies = [VALIDATION],
       rollback_command = Some (''echo '' @ [CHR 0x27] @ ''Analysis failed - rollback to validation'' @ [CHR 0x27]),
       validation_check = Some ''check_analysis_output'', timeout = 300 \<rparr>"
| "define_pipeline_steps PLANNING =
     \<lparr> stage = PLANNING,
       command = ''claude-flow swarm '' @ [CHR 0x27] @ ''Create detailed implementation plan'' @ [CHR 0x27],
       dependencies = [ANALYSIS],
       rollback_command = Some (''echo '' @ [CHR 0x27] @ ''Planning failed - rollback to analysis'' @ [CHR 0x27]),
       validation_check = Some ''check_planning_output'', timeout = 300 \<rparr>"
| "define_pipeline_steps IMPLEMENTATION =
     \<lparr> stage = IMPLEMENTATION,
       command = ''claude-flow swarm '' @ [CHR 0x27] @ ''Implement the project according to plan'' @ [CHR 0x27],
       dependencies = [PLANNING],
       rollback_command = Some (''rm -rf /tmp/{project_name} && echo '' @ [CHR 0x27]
                                  @ ''Implementation rolled back'' @ [CHR 0x27]),
       validation_check = Some ''check_implementation_output'', timeout = 300 \<rparr>"
| "define_pipeline_steps TESTING =
     \<lparr> stage = TESTING,
       command = ''claude-flow sparc tdd '' @ [CHR 0x27] @ ''Run comprehensive tests'' @ [CHR 0x27],
       dependencies = [IMPLEMENTATION],
       rollback_command = Some (''echo '' @ [CHR 0x27] @ ''Testing failed - rollback to implementation'' @ [CHR 0x27]),
       validation_check = Some ''check_testing_output'', timeout = 300 \<rparr>"
| "define_pipeline_steps DEPLOYMENT =
     \<lparr> stage = DEPLOYMENT,
       command = ''claude-flow sparc devops '' @ [CHR 0x27] @ ''Deploy and verify'' @ [CHR 0x27],
       dependencies = [TESTING],
       rollback_command = Some (''echo '' @ [CHR 0x27] @ ''Deployment failed - rollback to testing'' @ [CHR 0x27]),
       validation_check = Some ''check_deployment_output'', timeout = 300 \<rparr>"

text \<open>\<open>BBPFPipeline(...)\<close> with the step table its caller leaves in \<open>pipeline_steps\<close>
  (the constructor's own table is \<open>define_pipeline_steps\<close>; the orchestrator rewrites the
  commands before it runs the pipeline).\<close>

definition new_pipeline :: "(PipelineStage \<Rightarrow> PipelineStep) \<Rightarrow> 'w \<Rightarrow> 'w pipeline" where
  "new_pipeline steps w =
     \<lparr> results = Map.empty, pipeline_steps = steps, executed = [], rolled_back = [], world = w \<rparr>"

fun check_dependencies :: "(PipelineStage \<rightharpoonup> PipelineResult) \<Rightarrow> PipelineStage list \<Rightarrow> bool" where
  "check_dependencies res [] = True"
| "check_dependencies res (dep # deps) =
     (case res dep of
        None \<Rightarrow> False
      | Some r \<Rightarrow> if status r \<noteq> SUCCESS then False else check_dependencies res deps)"

definition execute_step :: "'w runner \<Rightarrow> 'w pipeline \<Rightarrow> PipelineStep \<Rightarrow> PipelineResult \<times> 'w pipeline" where
  "execute_step env st step =
     (let (out, w') = run_command env (world st) (command step) (timeout step);
          st' = st\<lparr>executed := executed st @ [command step], world := w'\<rparr>
      in case out of
           Exited returncode stdout stderr elapsed \<Rightarrow>
             if returncode = 0
             then (\<lparr> r_stage = stage step, status = SUCCESS, r_output = stdout,
                     r_error = None, execution_time = elapsed \<rparr>, st')
             else (\<lparr> r_stage = stage step, status = FAILED, r_output = stdout,
                     r_error = Some stderr, execution_time = elapsed \<rparr>, st')
         | TimeoutExpired \<Rightarrow>
             (\<lparr> r_stage = stage step, status = FAILED, r_output = [],
                r_error = Some (''Timeout after '' @ show_nat (timeout step) @ '' seconds''),
                execution_time = of_nat (timeout step) \<rparr>, st')
         | Raised msg \<Rightarrow>
             (\<lparr> r_stage = stage step, status = FAILED, r_output = [],
                r_error = Some msg, execution_time = 0 \<rparr>, st'))"

text \<open>\<open>str.strip()\<close>: the characters Python takes for white space, among the first 256.\<close>

definition is_space :: "char \<Rightarrow> bool" where
  "is_space c = (let n = (of_char c :: nat)
                 in (9 \<le> n \<and> n \<le> 13) \<or> (28 \<le> n \<and> n \<le> 32) \<or> n = 133 \<or> n = 160)"

definition strip :: "string \<Rightarrow> string" where
  "strip s = rev (dropWhile is_space (rev (dropWhile is_space s)))"

definition pipeline_validate_idea_structure :: "string \<Rightarrow> bool" where
  "pipeline_validate_idea_structure out = contains ''is_valid: True'' out"

definition check_analysis_output :: "string \<Rightarrow> bool" where
  "check_analysis_output out = (length (strip out) > 100 \<and> contains ''architecture'' (lower out))"

definition check_planning_output :: "string \<Rightarrow> bool" where
  "check_planning_output out = (contains ''plan'' (lower out) \<or> contains ''steps'' (lower out))"

definition check_implementation_output :: "string \<Rightarrow> bool" where
  "check_implementation_output out =
     (contains ''created'' (lower out) \<or> contains ''generated'' (lower out))"

definition check_testing_output :: "string \<Rightarrow> bool" where
  "check_testing_output out = (contains ''passed'' (lower out) \<or> contains ''success'' (lower out))"

definition check_deployment_output :: "string \<Rightarrow> bool" where
  "check_deployment_output out =
     (contains ''deployed'' (lower out) \<or> contains ''running'' (lower out))"

text \<open>
  \<open>getattr(self, step.validation_check, None)\<close> for the names of the six validation
  methods; a name that is no attribute of the pipeline gives \<open>None\<close>. (Names of the other
  attributes of the class stand in no step table of the scripts and are not modelled.)
\<close>

definition getattr_validation :: "string \<Rightarrow> (string \<Rightarrow> bool) option" where
  "getattr_validation a =
     (if a = ''validate_idea_structure'' then Some pipeline_validate_idea_structure
      else if a = ''check_analysis_output'' then Some check_analysis_output
      else if a = ''check_planning_output'' then Some check_planning_output
      else if a = ''check_implementation_output'' then Some check_implementation_output
      else if a = ''check_testing_output'' then Some check_testing_output
      else if a = ''check_deployment_output'' then Some check_deployment_output
      else None)"

definition error_indicators :: "string list" where
  "error_indicators = [''error'', ''failed'', ''exception'', ''timeout'']"

definition default_validation :: "string \<Rightarrow> bool" where
  "default_validation out = (\<not> list_ex (\<lambda>indicator. contains indicator (lower out)) error_indicators)"

definition validate_step_output :: "PipelineStep \<Rightarrow> string \<Rightarrow> bool" where
  "validate_step_output step out =
     (case validation_check step of
        None \<Rightarrow> default_validation out
      | Some a \<Rightarrow>
          if a = [] then default_validation out
          else (case getattr_validation a of
                  None \<Rightarrow> default_validation out
                | Some validation_func \<Rightarrow> validation_func out))"

text \<open>
  The search loop of \<open>_rollback_stage\<close> over \<open>reversed(list(PipelineStage))\<close>: it stops with
  nothing at the failed stage, and with the first stage before that whose recorded status
  is \<open>SUCCESS\<close>.
\<close>

fun find_previous ::
  "PipelineStage \<Rightarrow> (PipelineStage \<rightharpoonup> PipelineResult) \<Rightarrow> PipelineStage list \<Rightarrow> PipelineStage option"
where
  "find_previous failed_stage res [] = None"
| "find_previous failed_stage res (s # ss) =
     (if s = failed_stage then None
      else if (case res s of None \<Rightarrow> False | Some r \<Rightarrow> status r = SUCCESS) then Some s
      else find_previous failed_stage res ss)"

definition rollback_stage :: "'w runner \<Rightarrow> 'w pipeline \<Rightarrow> PipelineStage \<Rightarrow> 'w pipeline" where
  "rollback_stage env st failed_stage =
     (case find_previous failed_stage (results st) (rev all_stages) of
        None \<Rightarrow> st
      | Some previous_stage \<Rightarrow>
          (case rollback_command (pipeline_steps st previous_stage) of
             None \<Rightarrow> st
           | Some cmd \<Rightarrow>
               if cmd = [] then st
               else (let (ok, w') = run_rollback env (world st) cmd
                     in st\<lparr>rolled_back := rolled_back st @ [cmd], world := w'\<rparr>)))"

text \<open>The loop of \<open>execute_pipeline\<close> over the stages still to visit; every \<open>return\<close> of the
  loop body ends the recursion.\<close>

fun exec_stages :: "'w runner \<Rightarrow> PipelineStage list \<Rightarrow> 'w pipeline \<Rightarrow> 'w pipeline" where
  "exec_stages env [] st = st"
| "exec_stages env (s # rest) st =
     (let step = pipeline_steps st s
      in if \<not> check_dependencies (results st) (dependencies step) then st
         else (let (result, st1) = execute_step env st step;
                   st2 = st1\<lparr>results := (results st1)(s \<mapsto> result)\<rparr>
               in if status result = SUCCESS \<and> \<not> validate_step_output step (r_output result)
                    then rollback_stage env st2 s
                  else if status result = FAILED then rollback_stage env st2 s
                  else exec_stages env rest st2))"

declare exec_stages.simps(2) [simp del]

definition execute_pipeline :: "'w runner \<Rightarrow> 'w pipeline \<Rightarrow> 'w pipeline" where
  "execute_pipeline env st = exec_stages env all_stages st"

text \<open>The stages that come after a stage in the order of the enumeration.\<close>

definition later_stages :: "PipelineStage \<Rightarrow> PipelineStage list" where
  "later_stages s = tl (dropWhile (\<lambda>t. t \<noteq> s) all_stages)"

text \<open>A run of a pipeline fresh from its constructor, with the step table \<open>steps\<close>.\<close>

abbreviation fresh_run ::
  "'w runner \<Rightarrow> (PipelineStage \<Rightarrow> PipelineStep) \<Rightarrow> 'w \<Rightarrow> 'w pipeline" where
  "fresh_run env steps w \<equiv> execute_pipeline env (new_pipeline steps w)"

section \<open>Concrete inputs\<close>

text \<open>
  A world for the constructor's step table in which one stage fails: the command of the
  stage \<open>failing\<close> exits with code 1, the command of every other stage exits with code 0
  and an output that passes the stage's check; rollback commands succeed.
\<close>

fun good_output :: "PipelineStage \<Rightarrow> string" where
  "good_output VALIDATION = ''is_valid: True''"
| "good_output ANALYSIS = ''The architecture: '' @ replicate 100 (CHR ''x'')"
| "good_output PLANNING = ''The plan''"
| "good_output IMPLEMENTATION = ''Created the project''"
| "good_output TESTING = ''All tests passed''"
| "good_output DEPLOYMENT = ''Deployed''"

definition fails_at :: "PipelineStage \<Rightarrow> unit runner" where
  "fails_at failing =
     \<lparr> run_command = (\<lambda>w cmd t.
         if cmd = command (define_pipeline_steps failing) then (Exited 1 [] ''failed'' 0, ())
         else (case find (\<lambda>s. command (define_pipeline_steps s) = cmd) all_stages of
                 Some s \<Rightarrow> (Exited 0 (good_output s) [] 0, ())
               | None \<Rightarrow> (Raised ''unknown command'', ()))),
       run_rollback = (\<lambda>w cmd. (True, ())) \<rparr>"

text \<open>The implementation output of the spec's end-to-end scenario 3.\<close>

definition scenario_output :: string where
  "scenario_output =
     ''Created a Python-based analytics platform using Django and SQLite. Batch processing. Single server deployment.''"

section \<open>Facts about the tables and the helper functions\<close>

lemma list_ex_count: "list_ex P xs = (1 \<le> length (filter P xs))"
  by (induction xs) auto

lemma lower_complexity_values:
  "lower ''simple'' = ''simple''" "lower ''medium'' = ''medium''" "lower ''complex'' = ''complex''"
  by code_simp+

lemma complexity_scores_get_value:
  "complexity_scores_get (complexity_value c) = (case c of SIMPLE \<Rightarrow> 1 | MEDIUM \<Rightarrow> 2 | COMPLEX \<Rightarrow> 3)"
  by (cases c) (simp_all add: complexity_scores_get_def lower_complexity_values)

lemma opt_parallel_indicators_same: "opt_parallel_indicators = parallel_indicators"
  by (simp add: opt_parallel_indicators_def parallel_indicators_def)

lemma mode_keywords_same: "mode_keywords = sparc_mode_keywords"
  by (simp add: mode_keywords_def sparc_mode_keywords_def)

text \<open>The validator's record, field by field.\<close>

lemma validate_fields:
  "complexity (validate_idea_structure d) = assess_complexity d"
  "suggested_sparc_mode (validate_idea_structure d) = suggest_sparc_mode d"
  "suggested_topology (validate_idea_structure d) = fst (suggest_topology (assess_complexity d) d)"
  "estimated_agents (validate_idea_structure d) = snd (suggest_topology (assess_complexity d) d)"
  unfolding validate_idea_structure_def Let_def by (simp_all add: split_beta)

lemma check_elements_filter:
  "check_elements es t (m, f) =
     (m @ map fst (filter (\<lambda>(e, p). \<not> re_search p t) es),
      f @ map fst (filter (\<lambda>(e, p). re_search p t) es))"
  by (induction es arbitrary: m f) auto

text \<open>The two topology rules, as case distinctions on the complexity and the number of
  parallelism keywords found.\<close>

lemma optimizer_topology_cases:
  "topology (determine_optimal_topology (complexity_value c) d) =
     (if c = COMPLEX \<or> 2 \<le> count_hits parallel_indicators (lower d) then ''swarm''
      else if c = MEDIUM then ''swarm'' else ''hive'')"
  "agent_count (determine_optimal_topology (complexity_value c) d) =
     (if c = COMPLEX then 8
      else if 2 \<le> count_hits parallel_indicators (lower d) then (if c = MEDIUM then 7 else 6)
      else if c = MEDIUM then 5 else 3)"
  unfolding determine_optimal_topology_def Let_def complexity_scores_get_value
    opt_parallel_indicators_same
  by (cases c; simp add: split_beta)+

lemma validator_topology_cases:
  "suggest_topology c d =
     (if c = COMPLEX \<or> 1 \<le> count_hits parallel_indicators (lower d) then (''swarm'', 7)
      else if c = MEDIUM then (''swarm'', 5) else (''hive'', 3))"
  by (simp add: suggest_topology_def list_ex_count count_hits_def Let_def)

lemma sparc_mode_same: "determine_optimal_sparc_mode d = suggest_sparc_mode d"
proof -
  have "(if 0 < n then b else ''architect'') = (if n = 0 then ''architect'' else b)"
    for n :: nat and b
    by simp
  then show ?thesis
    unfolding determine_optimal_sparc_mode_def suggest_sparc_mode_def mode_keywords_same Let_def
    by (simp split: option.splits prod.splits)
qed

lemma topology_agreement:
  "(topology (determine_optimal_topology (complexity_value c) d) = fst (suggest_topology c d))
     = (\<not> (c = SIMPLE \<and> count_hits parallel_indicators (lower d) = 1))"
proof -
  define h where "h = count_hits parallel_indicators (lower d)"
  define sw where "sw = ''swarm''"
  define hv where "hv = ''hive''"
  have ne: "sw \<noteq> hv" by (simp add: sw_def hv_def)
  have "(((if c = COMPLEX \<or> 2 \<le> h then sw else if c = MEDIUM then sw else hv)
          = fst (if c = COMPLEX \<or> 1 \<le> h then (sw, 7::nat)
                 else if c = MEDIUM then (sw, 5) else (hv, 3)))
         = (\<not> (c = SIMPLE \<and> h = 1)))"
    using ne by (cases c; cases "h = 0"; cases "h = 1"; simp)
  then show ?thesis
    unfolding optimizer_topology_cases validator_topology_cases h_def sw_def hv_def .
qed

lemma agent_count_agreement:
  "(agent_count (determine_optimal_topology (complexity_value c) d) = snd (suggest_topology c d))
     = ((c \<noteq> COMPLEX \<and> count_hits parallel_indicators (lower d) = 0)
        \<or> (c = MEDIUM \<and> 2 \<le> count_hits parallel_indicators (lower d)))"
proof -
  define h where "h = count_hits parallel_indicators (lower d)"
  define sw where "sw = ''swarm''"
  define hv where "hv = ''hive''"
  have "(((if c = COMPLEX then 8
           else if 2 \<le> h then (if c = MEDIUM then 7 else 6)
           else if c = MEDIUM then 5 else 3)
          = snd (if c = COMPLEX \<or> 1 \<le> h then (sw, 7::nat)
                 else if c = MEDIUM then (sw, 5) else (hv, 3)))
         = ((c \<noteq> COMPLEX \<and> h = 0) \<or> (c = MEDIUM \<and> 2 \<le> h)))"
    by (cases c; cases "h = 0"; cases "h = 1"; simp)
  then show ?thesis
    unfolding optimizer_topology_cases validator_topology_cases h_def sw_def hv_def .
qed

text \<open>Two descriptions, evaluated.\<close>

lemma complex_text:
  "assess_complexity ''distributed microservices real-time'' = COMPLEX"
  "count_hits parallel_indicators (lower ''distributed microservices real-time'') = 3"
  by code_simp+

lemma simple_text:
  "assess_complexity ''simple task api'' = SIMPLE"
  "count_hits parallel_indicators (lower ''simple task api'') = 1"
  by code_simp+

lemma matched_users_goal_data:
  "category_matched ''users'' ''Users goal DATA'' = True"
  "category_matched ''goal'' ''Users goal DATA'' = True"
  "category_matched ''inputs'' ''Users goal DATA'' = True"
  "category_matched ''outputs'' ''Users goal DATA'' = False"
  "category_matched ''runtime'' ''Users goal DATA'' = False"
  by code_simp+

lemma detect_batch:
  "length (filter (\<lambda>c. severity c = SEV_CRITICAL)
     (detect_contradictions [] ''Real-time batch processing'')) = 1"
  by code_simp

lemma detect_nothing: "detect_contradictions ''a web shop'' ''Created a web shop'' = []"
  by code_simp

text \<open>The clarity score of the optimizer.\<close>

lemma count_found_filter:
  "count_found es t n = n + length (filter (\<lambda>(e, p). re_search p t) es)"
  by (induction es arbitrary: n) auto

lemma category_matched_patterns:
  "category_matched ''users'' d =
     re_search [lit ''user'' @ [OptChr CHR ''s''], lit ''audience'', lit ''target'', lit ''who''] (lower d)"
  "category_matched ''goal'' d =
     re_search [lit ''goal'', lit ''objective'', lit ''purpose'', lit ''problem'', lit ''solve''] (lower d)"
  "category_matched ''inputs'' d =
     re_search [lit ''input'', lit ''data'', lit ''source'', lit ''feed''] (lower d)"
  "category_matched ''outputs'' d =
     re_search [lit ''output'', lit ''produce'', lit ''result'', lit ''deliver''] (lower d)"
  "category_matched ''runtime'' d =
     re_search [lit ''runtime'', lit ''deploy'', lit ''environment'', lit ''local'', lit ''cloud''] (lower d)"
  by (simp_all add: category_matched_def required_elements_def)

lemma length_filter_Cons:
  "length (filter P (x # xs)) = (if P x then 1 else 0) + length (filter P xs)"
  by simp

lemma clarity_found_elements:
  "length (filter (\<lambda>(e, p). re_search p (lower d)) clarity_indicators) =
     length (filter (\<lambda>e. category_matched e d)
               [''users'', ''goal'', ''inputs'', ''outputs'', ''runtime''])
     + (if re_search [lit ''api'', lit ''database'', lit ''framework'',
                      lit ''language'', lit ''architecture''] (lower d)
        then 1 else 0)"
  unfolding clarity_indicators_def length_filter_Cons category_matched_patterns
  by (simp only: prod.case filter.simps list.size add.assoc add_0_right)

lemma clamp_bounds: "0 \<le> min 1 (max 0 x) \<and> min 1 (max 0 x) \<le> (1 :: rat)"
  by simp

lemma clarity_total: "length clarity_indicators = 6"
  by (simp add: clarity_indicators_def)

text \<open>A pattern that is an alternation of literals is found exactly when one of the
  literals is contained in the text.\<close>

lemma match_here_lit: "match_here False (lit k) s = starts_with k s"
  by (induction k s rule: starts_with.induct) (simp_all add: lit_def chr_eq_def)

lemma re_search_literals: "re_search (map lit ks) s = list_ex (\<lambda>k. contains k s) ks"
  unfolding re_search_def
  by (induction s) (auto simp: list_ex_iff match_here_lit)

lemma technical_bonus_contains:
  "technical_bonus t =
     (if contains ''technical'' t \<or> contains ''architecture'' t \<or> contains ''framework'' t
      then 1 / 10 else 0)"
  using re_search_literals [of "[''technical'', ''architecture'', ''framework'']" t]
  by (simp add: technical_bonus_def)

lemma vagueness_penalty_contains:
  "vagueness_penalty t =
     (if contains ''something'' t \<or> contains ''anything'' t \<or> contains ''whatever'' t
      then 1 / 10 else 0)"
  using re_search_literals [of "[''something'', ''anything'', ''whatever'']" t]
  by (simp add: vagueness_penalty_def)

lemma technical_details_contains:
  "re_search [lit ''api'', lit ''database'', lit ''framework'', lit ''language'', lit ''architecture''] t
     = (contains ''api'' t \<or> contains ''database'' t \<or> contains ''framework'' t
        \<or> contains ''language'' t \<or> contains ''architecture'' t)"
  using re_search_literals [of "[''api'', ''database'', ''framework'', ''language'', ''architecture'']" t]
  by simp

lemma framework_text:
  "category_matched ''users'' ''A Framework'' = False"
  "category_matched ''goal'' ''A Framework'' = False"
  "category_matched ''inputs'' ''A Framework'' = False"
  "category_matched ''outputs'' ''A Framework'' = False"
  "category_matched ''runtime'' ''A Framework'' = False"
  "contains ''api'' (lower ''A Framework'') = False"
  "contains ''database'' (lower ''A Framework'') = False"
  "contains ''framework'' (lower ''A Framework'') = True"
  "contains ''something'' (lower ''A Framework'') = False"
  "contains ''anything'' (lower ''A Framework'') = False"
  "contains ''whatever'' (lower ''A Framework'') = False"
  by code_simp+

lemma whatever_text:
  "category_matched ''users'' ''Whatever users need'' = True"
  "category_matched ''goal'' ''Whatever users need'' = False"
  "category_matched ''inputs'' ''Whatever users need'' = False"
  "category_matched ''outputs'' ''Whatever users need'' = False"
  "category_matched ''runtime'' ''Whatever users need'' = False"
  "contains ''api'' (lower ''Whatever users need'') = False"
  "contains ''database'' (lower ''Whatever users need'') = False"
  "contains ''framework'' (lower ''Whatever users need'') = False"
  "contains ''language'' (lower ''Whatever users need'') = False"
  "contains ''architecture'' (lower ''Whatever users need'') = False"
  "contains ''technical'' (lower ''Whatever users need'') = False"
  "contains ''something'' (lower ''Whatever users need'') = False"
  "contains ''anything'' (lower ''Whatever users need'') = False"
  "contains ''whatever'' (lower ''Whatever users need'') = True"
  by code_simp+

lemma five_text:
  "category_matched ''users'' ''users goal inputs outputs runtime'' = True"
  "category_matched ''goal'' ''users goal inputs outputs runtime'' = True"
  "category_matched ''inputs'' ''users goal inputs outputs runtime'' = True"
  "category_matched ''outputs'' ''users goal inputs outputs runtime'' = True"
  "category_matched ''runtime'' ''users goal inputs outputs runtime'' = True"
  "contains ''technical'' (lower ''users goal inputs outputs runtime'') = False"
  "contains ''architecture'' (lower ''users goal inputs outputs runtime'') = False"
  "contains ''framework'' (lower ''users goal inputs outputs runtime'') = False"
  "contains ''something'' (lower ''users goal inputs outputs runtime'') = False"
  "contains ''anything'' (lower ''users goal inputs outputs runtime'') = False"
  "contains ''whatever'' (lower ''users goal inputs outputs runtime'') = False"
  by code_simp+

lemma five_text_clarity: "analyze_idea_clarity ''users goal inputs outputs runtime'' = 5 / 6"
  by code_simp

text \<open>The attention catalog of a fresh manager.\<close>

lemma promote_catalog:
  "map (\<lambda>(key, target). (key, promote cs cx target)) define_attention_targets
     = define_attention_targets"
  unfolding define_attention_targets_def promote_def by simp

lemma get_attention_priorities_new:
  "get_attention_priorities new_manager cs cx =
     (take 5 (sorted_reverse (\<lambda>x. (priority_value (priority x), impact_score x))
                (map snd define_attention_targets)), new_manager)"
  unfolding get_attention_priorities_def Let_def
  by (simp add: new_manager_def promote_catalog)

lemma sorted_catalog:
  "map (\<lambda>t. (name t, priority t))
     (take 5 (sorted_reverse (\<lambda>x. (priority_value (priority x), impact_score x))
                (map snd define_attention_targets)))
   = [(''progress_tracking'', PRIO_MEDIUM), (''resource_monitoring'', PRIO_MEDIUM),
      (''logging'', PRIO_LOW), (''documentation'', PRIO_LOW), (''agent_coordination'', PRIO_HIGH)]"
  by code_simp

text \<open>The pipeline: what one step and one rollback change, and what a run from a fresh
  pipeline keeps invariant.\<close>

lemma check_dependencies_iff:
  "check_dependencies res deps = (\<forall>d \<in> set deps. \<exists>r. res d = Some r \<and> status r = SUCCESS)"
  by (induction deps) (auto split: option.splits)

lemma check_dependencies_mono:
  "check_dependencies res deps \<Longrightarrow> res \<subseteq>\<^sub>m res' \<Longrightarrow> check_dependencies res' deps"
  unfolding check_dependencies_iff map_le_def by (metis domI)

lemma execute_step_frame:
  assumes "execute_step env st step = (r, st1)"
  shows "results st1 = results st" "pipeline_steps st1 = pipeline_steps st"
    "rolled_back st1 = rolled_back st" "executed st1 = executed st @ [command step]"
    "status r = SUCCESS \<or> status r = FAILED"
  using assms
  by (auto simp: execute_step_def Let_def split: prod.splits outcome.splits if_splits)

lemma rollback_stage_frame:
  "results (rollback_stage env st f) = results st"
  "pipeline_steps (rollback_stage env st f) = pipeline_steps st"
  "executed (rollback_stage env st f) = executed st"
  by (simp_all add: rollback_stage_def Let_def split: option.splits prod.splits)

lemma exec_stages_Cons_cases:
  obtains
    (nodeps) "\<not> check_dependencies (results st) (dependencies (pipeline_steps st s))"
      "exec_stages env (s # rest) st = st"
  | (halt) r st1 where
      "check_dependencies (results st) (dependencies (pipeline_steps st s))"
      "execute_step env st (pipeline_steps st s) = (r, st1)"
      "status r \<noteq> SUCCESS \<or> \<not> validate_step_output (pipeline_steps st s) (r_output r)"
      "exec_stages env (s # rest) st =
         rollback_stage env (st1\<lparr>results := (results st1)(s \<mapsto> r)\<rparr>) s"
  | (go) r st1 where
      "check_dependencies (results st) (dependencies (pipeline_steps st s))"
      "execute_step env st (pipeline_steps st s) = (r, st1)"
      "status r = SUCCESS" "validate_step_output (pipeline_steps st s) (r_output r)"
      "exec_stages env (s # rest) st =
         exec_stages env rest (st1\<lparr>results := (results st1)(s \<mapsto> r)\<rparr>)"
proof (cases "check_dependencies (results st) (dependencies (pipeline_steps st s))")
  case False
  then show ?thesis using nodeps by (simp add: exec_stages.simps(2))
next
  case True
  obtain r st1 where ex: "execute_step env st (pipeline_steps st s) = (r, st1)"
    by (cases "execute_step env st (pipeline_steps st s)")
  have st: "status r = SUCCESS \<or> status r = FAILED"
    using execute_step_frame(5)[OF ex] .
  show ?thesis
  proof (cases "status r = SUCCESS \<and> validate_step_output (pipeline_steps st s) (r_output r)")
    case True
    then show ?thesis using go[OF \<open>check_dependencies _ _\<close> ex] ex \<open>check_dependencies _ _\<close>
      by (simp add: Let_def exec_stages.simps(2))
  next
    case False
    then show ?thesis using halt[OF \<open>check_dependencies _ _\<close> ex] ex st \<open>check_dependencies _ _\<close>
      by (auto simp add: Let_def exec_stages.simps(2))
  qed
qed


lemma map_le_fresh: "m k = None \<Longrightarrow> m \<subseteq>\<^sub>m m(k \<mapsto> v)"
  by (auto simp: map_le_def)

lemma find_previous_unrecorded:
  "\<forall>t \<in> set xs. res t = None \<Longrightarrow> find_previous f res (xs @ f # ys) = None"
  by (induction xs) auto

lemma exec_stages_invariant:
  assumes "distinct ss" "\<forall>t \<in> set ss. results st t = None"
  shows "pipeline_steps (exec_stages env ss st) = pipeline_steps st
    \<and> results st \<subseteq>\<^sub>m results (exec_stages env ss st)
    \<and> (\<forall>t. t \<notin> set ss \<longrightarrow> results (exec_stages env ss st) t = results st t)
    \<and> (\<forall>t \<in> set ss. results (exec_stages env ss st) t \<noteq> None \<longrightarrow>
          check_dependencies (results (exec_stages env ss st)) (dependencies (pipeline_steps st t)))
    \<and> executed (exec_stages env ss st) =
        executed st @ map (\<lambda>t. command (pipeline_steps st t))
                        (filter (\<lambda>t. results (exec_stages env ss st) t \<noteq> None) ss)"
  using assms
proof (induction ss arbitrary: st)
  case Nil
  then show ?case by simp
next
  case (Cons s rest)
  have fresh: "results st s = None" "\<forall>t \<in> set rest. results st t = None"
    and dist: "s \<notin> set rest" "distinct rest"
    using Cons.prems by auto
  show ?case
  proof (cases rule: exec_stages_Cons_cases[of st s env rest])
    case nodeps
    then show ?thesis using fresh by simp
  next
    case (halt r st1)
    note fr = execute_step_frame[OF halt(2)]
    define fin where "fin = exec_stages env (s # rest) st"
    have res: "results fin = (results st)(s \<mapsto> r)"
      and a: "pipeline_steps fin = pipeline_steps st"
      and ex: "executed fin = executed st @ [command (pipeline_steps st s)]"
      unfolding fin_def halt(4) by (simp_all add: rollback_stage_frame fr)
    have le: "results st \<subseteq>\<^sub>m (results st)(s \<mapsto> r)"
      using fresh(1) by (rule map_le_fresh)
    have dep: "check_dependencies ((results st)(s \<mapsto> r)) (dependencies (pipeline_steps st s))"
      using check_dependencies_mono[OF halt(1) le] .
    have none: "\<forall>t \<in> set rest. ((results st)(s \<mapsto> r)) t = None"
      using fresh(2) dist(1) by auto
    have flt: "filter (\<lambda>t. ((results st)(s \<mapsto> r)) t \<noteq> None) (s # rest) = [s]"
      using none by (simp add: filter_empty_conv)
    have "pipeline_steps fin = pipeline_steps st
      \<and> results st \<subseteq>\<^sub>m results fin
      \<and> (\<forall>t. t \<notin> set (s # rest) \<longrightarrow> results fin t = results st t)
      \<and> (\<forall>t \<in> set (s # rest). results fin t \<noteq> None \<longrightarrow>
            check_dependencies (results fin) (dependencies (pipeline_steps st t)))
      \<and> executed fin =
          executed st @ map (\<lambda>t. command (pipeline_steps st t))
                          (filter (\<lambda>t. results fin t \<noteq> None) (s # rest))"
      unfolding res flt using a le dep none ex by auto
    then show ?thesis unfolding fin_def .
  next
    case (go r st1)
    note fr = execute_step_frame[OF go(2)]
    define st2 where "st2 = st1\<lparr>results := (results st1)(s \<mapsto> r)\<rparr>"
    have st2: "results st2 = (results st)(s \<mapsto> r)" "pipeline_steps st2 = pipeline_steps st"
      "executed st2 = executed st @ [command (pipeline_steps st s)]"
      by (simp_all add: st2_def fr)
    have fresh2: "\<forall>t \<in> set rest. results st2 t = None"
      using fresh(2) dist(1) by (auto simp: st2)
    note IH = Cons.IH[OF dist(2) fresh2]
    define fin where "fin = exec_stages env rest st2"
    have eq: "exec_stages env (s # rest) st = fin"
      unfolding go(5) fin_def st2_def ..
    have le: "results st \<subseteq>\<^sub>m results st2"
      unfolding st2 using fresh(1) by (rule map_le_fresh)
    have le2: "results st2 \<subseteq>\<^sub>m results fin"
      using IH unfolding fin_def by blast
    have s_fin: "results fin s = Some r"
      using IH dist(1) unfolding fin_def by (simp add: st2)
    have a: "pipeline_steps fin = pipeline_steps st"
      using IH unfolding fin_def by (simp add: st2)
    have b: "results st \<subseteq>\<^sub>m results fin"
      using le le2 by (rule map_le_trans)
    have c: "\<forall>t. t \<notin> set (s # rest) \<longrightarrow> results fin t = results st t"
      using IH unfolding fin_def by (simp add: st2)
    have d: "\<forall>t \<in> set (s # rest). results fin t \<noteq> None \<longrightarrow>
               check_dependencies (results fin) (dependencies (pipeline_steps st t))"
    proof
      fix t assume "t \<in> set (s # rest)"
      then consider "t = s" | "t \<in> set rest" by auto
      then show "results fin t \<noteq> None \<longrightarrow>
               check_dependencies (results fin) (dependencies (pipeline_steps st t))"
      proof cases
        case 1
        then show ?thesis using check_dependencies_mono[OF go(1) b] by simp
      next
        case 2
        then show ?thesis using IH unfolding fin_def by (simp add: st2)
      qed
    qed
    have e: "executed fin = executed st @ map (\<lambda>t. command (pipeline_steps st t))
                        (filter (\<lambda>t. results fin t \<noteq> None) (s # rest))"
      using IH s_fin unfolding fin_def[symmetric] by (simp add: st2)
    show ?thesis unfolding eq using a b c d e by blast
  qed
qed

lemma exec_stages_halts:
  assumes "distinct (xs @ s # ys)" "\<forall>t \<in> set (xs @ s # ys). results st t = None"
    and "results (exec_stages env (xs @ s # ys) st) s = None
         \<or> (\<exists>r. results (exec_stages env (xs @ s # ys) st) s = Some r
                \<and> (status r \<noteq> SUCCESS \<or> \<not> validate_step_output (pipeline_steps st s) (r_output r)))"
  shows "\<forall>t \<in> set ys. results (exec_stages env (xs @ s # ys) st) t = None"
  using assms
proof (induction xs arbitrary: st)
  case Nil
  have fresh: "\<forall>t \<in> set ys. results st t = None" and dist: "s \<notin> set ys" "distinct ys"
    using Nil.prems by auto
  show ?case
  proof (cases rule: exec_stages_Cons_cases[of st s env ys])
    case nodeps
    then show ?thesis using fresh by simp
  next
    case (halt r st1)
    then show ?thesis using fresh dist(1)
      by (auto simp: rollback_stage_frame execute_step_frame[OF halt(2)])
  next
    case (go r st1)
    define st2 where "st2 = st1\<lparr>results := (results st1)(s \<mapsto> r)\<rparr>"
    have st2: "results st2 = (results st)(s \<mapsto> r)"
      by (simp add: st2_def execute_step_frame[OF go(2)])
    have fresh2: "\<forall>t \<in> set ys. results st2 t = None"
      using fresh dist(1) by (auto simp: st2)
    have "results (exec_stages env ys st2) s = results st2 s"
      using exec_stages_invariant[OF dist(2) fresh2, of env] dist(1) by blast
    then have "results (exec_stages env ([] @ s # ys) st) s = Some r"
      using go(5) by (simp add: st2 st2_def)
    then show ?thesis using Nil.prems(3) go(3,4) by auto
  qed
next
  case (Cons x xs)
  let ?rest = "xs @ s # ys"
  have fresh: "results st x = None" "\<forall>t \<in> set ?rest. results st t = None"
    and dist: "x \<notin> set ?rest" "distinct ?rest"
    using Cons.prems(1,2) by auto
  have xy: "\<forall>t \<in> set ys. t \<noteq> x" using dist(1) by auto
  show ?case
  proof (cases rule: exec_stages_Cons_cases[of st x env ?rest])
    case nodeps
    then show ?thesis using fresh by simp
  next
    case (halt r st1)
    then show ?thesis using fresh xy
      by (auto simp: rollback_stage_frame execute_step_frame[OF halt(2)])
  next
    case (go r st1)
    define st2 where "st2 = st1\<lparr>results := (results st1)(x \<mapsto> r)\<rparr>"
    have st2: "results st2 = (results st)(x \<mapsto> r)" "pipeline_steps st2 = pipeline_steps st"
      by (simp_all add: st2_def execute_step_frame[OF go(2)])
    have fresh2: "\<forall>t \<in> set ?rest. results st2 t = None"
      using fresh(2) dist(1) by (auto simp: st2)
    have eq: "exec_stages env ((x # xs) @ s # ys) st = exec_stages env ?rest st2"
      using go(5) by (simp add: st2_def)
    show ?thesis
      using Cons.IH[OF dist(2) fresh2] Cons.prems(3) unfolding eq st2(2) by blast
  qed
qed

lemma exec_stages_no_rollback:
  assumes "all_stages = pre @ ss" "\<forall>t \<in> set ss. results st t = None"
  shows "rolled_back (exec_stages env ss st) = rolled_back st"
  using assms
proof (induction ss arbitrary: pre st)
  case Nil
  then show ?case by simp
next
  case (Cons s rest)
  have fresh: "\<forall>t \<in> set rest. results st t = None" using Cons.prems(2) by simp
  have "distinct (pre @ s # rest)"
    unfolding Cons.prems(1)[symmetric] by (simp add: all_stages_def)
  then have dist: "s \<notin> set rest" by simp
  have rv: "rev all_stages = rev rest @ s # rev pre"
    unfolding Cons.prems(1) by simp
  show ?case
  proof (cases rule: exec_stages_Cons_cases[of st s env rest])
    case nodeps
    then show ?thesis by simp
  next
    case (halt r st1)
    note fr = execute_step_frame[OF halt(2)]
    have "find_previous s ((results st)(s \<mapsto> r)) (rev all_stages) = None"
      unfolding rv using fresh dist by (intro find_previous_unrecorded) auto
    then show ?thesis
      unfolding halt(4) by (simp add: rollback_stage_def fr)
  next
    case (go r st1)
    note fr = execute_step_frame[OF go(2)]
    define st2 where "st2 = st1\<lparr>results := (results st1)(s \<mapsto> r)\<rparr>"
    have fresh2: "\<forall>t \<in> set rest. results st2 t = None"
      using fresh dist by (auto simp: st2_def fr)
    have "all_stages = (pre @ [s]) @ rest" unfolding Cons.prems(1) by simp
    from Cons.IH[OF this fresh2] show ?thesis
      unfolding go(5) st2_def[symmetric] by (simp add: st2_def fr)
  qed
qed

lemma later_stages_split:
  "all_stages = takeWhile (\<lambda>t. t \<noteq> s) all_stages @ s # later_stages s"
  by (cases s) (simp_all add: later_stages_def all_stages_def)

lemma fresh_pipeline:
  "results (new_pipeline steps w) = Map.empty" "pipeline_steps (new_pipeline steps w) = steps"
  "executed (new_pipeline steps w) = []" "rolled_back (new_pipeline steps w) = []"
  by (simp_all add: new_pipeline_def)

lemma distinct_all_stages: "distinct all_stages"
  by (simp add: all_stages_def)

lemma all_stages_complete: "s \<in> set all_stages"
  by (cases s) (simp_all add: all_stages_def)

lemma fresh_run_recorded_dependencies:
  assumes "results (fresh_run env steps w) s = Some r"
  shows "\<forall>d \<in> set (dependencies (steps s)).
           \<exists>r'. results (fresh_run env steps w) d = Some r' \<and> status r' = SUCCESS"
proof -
  have "check_dependencies (results (fresh_run env steps w)) (dependencies (steps s))"
    using exec_stages_invariant[OF distinct_all_stages, of "new_pipeline steps w" env]
      all_stages_complete[of s] assms
    unfolding execute_pipeline_def by (simp add: fresh_pipeline)
  then show ?thesis unfolding check_dependencies_iff .
qed

lemma fresh_run_executed:
  "executed (fresh_run env steps w) =
     map (\<lambda>s. command (steps s))
       (filter (\<lambda>s. results (fresh_run env steps w) s \<noteq> None) all_stages)"
  using exec_stages_invariant[OF distinct_all_stages, of "new_pipeline steps w" env]
  unfolding execute_pipeline_def by (simp add: fresh_pipeline)

lemma fresh_run_halts:
  assumes "results (fresh_run env steps w) s = None
         \<or> (\<exists>r. results (fresh_run env steps w) s = Some r
                \<and> (status r \<noteq> SUCCESS \<or> \<not> validate_step_output (steps s) (r_output r)))"
  shows "\<forall>t \<in> set (later_stages s). results (fresh_run env steps w) t = None"
proof -
  define xs where "xs = takeWhile (\<lambda>t. t \<noteq> s) all_stages"
  have split: "all_stages = xs @ s # later_stages s"
    unfolding xs_def by (rule later_stages_split)
  have d: "distinct (xs @ s # later_stages s)"
    unfolding split[symmetric] by (rule distinct_all_stages)
  have f: "\<forall>t \<in> set (xs @ s # later_stages s). results (new_pipeline steps w) t = None"
    by (simp add: fresh_pipeline)
  show ?thesis
    using exec_stages_halts[OF d f, of env] assms
    unfolding execute_pipeline_def split[symmetric] fresh_pipeline by blast
qed

lemma exec_stages_unmet:
  "\<not> check_dependencies (results st) (dependencies (pipeline_steps st s)) \<Longrightarrow>
     exec_stages env (s # rest) st = st"
  by (simp add: exec_stages.simps(2))

lemma analysis_fails_run:
  "map_option status (results (fresh_run (fails_at ANALYSIS) define_pipeline_steps ()) VALIDATION)
     = Some SUCCESS"
  "map_option status (results (fresh_run (fails_at ANALYSIS) define_pipeline_steps ()) ANALYSIS)
     = Some FAILED"
  by code_simp+

lemma later_analysis: "later_stages ANALYSIS = [PLANNING, IMPLEMENTATION, TESTING, DEPLOYMENT]"
  by (simp add: later_stages_def all_stages_def)

lemma implementation_fails_run:
  "map_option status (results (fresh_run (fails_at IMPLEMENTATION) define_pipeline_steps ()) PLANNING)
     = Some SUCCESS"
  "map_option status (results (fresh_run (fails_at IMPLEMENTATION) define_pipeline_steps ())
     IMPLEMENTATION) = Some FAILED"
  by code_simp+

lemma fresh_run_no_rollback: "rolled_back (fresh_run env steps w) = []"
  using exec_stages_no_rollback[of "[]" all_stages "new_pipeline steps w" env]
  unfolding execute_pipeline_def by (simp add: fresh_pipeline)

text \<open>The contradiction engine on the output of scenario 3.\<close>

lemma scenario_patterns: "pattern_contradictions scenario_output = []"
  by code_simp

lemma scenario_architecture: "extract_architecture_requirements scenario_output = []"
  by code_simp

lemma realtime_constraints:
  "constraints_get ''real-time'' = [''websockets'', ''low-latency'', ''persistent-connections'']"
  "constraints_get ''distributed'' = []"
  by (simp_all add: constraints_get_def architecture_constraints_def)

lemma scenario_contradictions:
  assumes "extract_architecture_requirements idea = [''real-time'', ''distributed'']"
    and "extract_technologies idea = []"
  shows "map (\<lambda>c. (c_type c, severity c, c_description c))
           (detect_contradictions idea scenario_output)
         = [(ARCHITECTURE_MISMATCH, SEV_HIGH, ''Missing architecture components for real-time'')]"
  unfolding detect_contradictions_def scenario_patterns check_technology_compatibility_def
    check_architecture_constraints_def assms scenario_architecture Let_def
  by (simp add: realtime_constraints)

lemma scenario_no_rollback:
  assumes "extract_architecture_requirements idea = [''real-time'', ''distributed'']"
    and "extract_technologies idea = []"
  shows "\<not> needs_rollback_of (detect_contradictions idea scenario_output)"
proof -
  have "map severity (detect_contradictions idea scenario_output) = [SEV_HIGH]"
    using scenario_contradictions[OF assms, THEN arg_cong, of "map (fst \<circ> snd)"]
    by (simp add: comp_def)
  then obtain c where c: "detect_contradictions idea scenario_output = [c]" "severity c = SEV_HIGH"
    by auto
  show ?thesis unfolding needs_rollback_of_def c Let_def using c(2) by simp
qed

lemma resolve_fields:
  "needs_rollback (resolve_contradictions idea impl) = needs_rollback_of (detect_contradictions idea impl)"
  "can_proceed (resolve_contradictions idea impl) = (\<not> needs_rollback_of (detect_contradictions idea impl))"
  "contradictions (resolve_contradictions idea impl) = detect_contradictions idea impl"
  by (simp_all add: resolve_contradictions_def Let_def)

lemma only_realtime_distributed:
  assumes "\<forall>k \<in> set arch_keywords.
             contains k (lower idea) = (k = ''real-time'' \<or> k = ''distributed'')"
    and "\<forall>k \<in> set tech_keywords. \<not> contains k (lower idea)"
  shows "extract_architecture_requirements idea = [''real-time'', ''distributed'']"
    and "extract_technologies idea = []"
proof -
  have "extract_architecture_requirements idea =
          filter (\<lambda>k. k = ''real-time'' \<or> k = ''distributed'') arch_keywords"
    unfolding extract_architecture_requirements_def using assms(1) by (intro filter_cong) auto
  also have "\<dots> = [''real-time'', ''distributed'']"
    by (simp add: arch_keywords_def)
  finally show "extract_architecture_requirements idea = [''real-time'', ''distributed'']" .
  show "extract_technologies idea = []"
    unfolding extract_technologies_def using assms(2) by (simp add: filter_empty_conv)
qed

lemma realtime_distributed_idea:
  "\<forall>k \<in> set arch_keywords.
     contains k (lower ''Real-time and distributed'') = (k = ''real-time'' \<or> k = ''distributed'')"
  "\<forall>k \<in> set tech_keywords. \<not> contains k (lower ''Real-time and distributed'')"
  by code_simp+

lemma realtime_distributed_contained:
  "contains ''real-time'' (lower ''Real-time and distributed'')"
  "contains ''distributed'' (lower ''Real-time and distributed'')"
  using realtime_distributed_idea(1) by (simp_all add: arch_keywords_def)

section \<open>The claims\<close>

text \<open>
  C2, as amended. With the complexity hint that the validator assigns to the description,
  the optimizer's SPARC mode is the validator's for every description. The topologies
  agree except when the complexity is simple and exactly one parallelism keyword is
  found (the validator takes one hit for swarm, the optimizer needs two). The agent counts
  agree exactly when the complexity is not complex and no parallelism keyword is found, or
  the complexity is medium and at least two are found (the validator's swarm has 7 agents,
  the optimizer's has \<open>min(8, 5 + score)\<close>).
\<close>

theorem optimizer_validator_agreement:
  "determine_optimal_sparc_mode d = suggested_sparc_mode (validate_idea_structure d)
   \<and> (topology (determine_optimal_topology (complexity_value (complexity (validate_idea_structure d))) d)
        = suggested_topology (validate_idea_structure d))
      = (\<not> (complexity (validate_idea_structure d) = SIMPLE \<and> count_hits parallel_indicators (lower d) = 1))
   \<and> (agent_count (determine_optimal_topology (complexity_value (complexity (validate_idea_structure d))) d)
        = estimated_agents (validate_idea_structure d))
      = ((complexity (validate_idea_structure d) \<noteq> COMPLEX \<and> count_hits parallel_indicators (lower d) = 0)
         \<or> (complexity (validate_idea_structure d) = MEDIUM \<and> 2 \<le> count_hits parallel_indicators (lower d)))"
  unfolding validate_fields
  by (intro conjI) (rule sparc_mode_same topology_agreement agent_count_agreement)+

theorem optimizer_validator_agreement_witness:
  "determine_optimal_sparc_mode ''simple task api''
     = suggested_sparc_mode (validate_idea_structure ''simple task api'')
   \<and> topology (determine_optimal_topology
         (complexity_value (complexity (validate_idea_structure ''simple task api''))) ''simple task api'')
       \<noteq> suggested_topology (validate_idea_structure ''simple task api'')"
  using optimizer_validator_agreement [of "''simple task api''"]
  by (simp add: validate_fields simple_text)

text \<open>
  C2 as stated fails: for a complex description the optimizer plans 8 agents and the
  validator 7; for a simple description with one parallelism keyword the optimizer chooses
  hive and the validator swarm.
\<close>

theorem optimizer_validator_counterexample:
  "agent_count (determine_optimal_topology
      (complexity_value (complexity (validate_idea_structure ''distributed microservices real-time'')))
      ''distributed microservices real-time'') = 8
   \<and> estimated_agents (validate_idea_structure ''distributed microservices real-time'') = 7
   \<and> topology (determine_optimal_topology
      (complexity_value (complexity (validate_idea_structure ''simple task api''))) ''simple task api'') = ''hive''
   \<and> suggested_topology (validate_idea_structure ''simple task api'') = ''swarm''"
  using optimizer_topology_cases [of COMPLEX "''distributed microservices real-time''"]
        optimizer_topology_cases [of SIMPLE "''simple task api''"]
  by (simp add: validate_fields validator_topology_cases complex_text simple_text)

text \<open>
  C5, as amended. The validator suggests swarm with 7 agents when the assessed complexity
  is complex or at least one parallelism keyword is found; swarm with 5 agents when the
  complexity is medium (and neither holds); hive with 3 agents otherwise.
\<close>

theorem validator_topology_rule:
  "(suggested_topology (validate_idea_structure d), estimated_agents (validate_idea_structure d)) =
     (if complexity (validate_idea_structure d) = COMPLEX
         \<or> 1 \<le> count_hits parallel_indicators (lower d) then (''swarm'', 7)
      else if complexity (validate_idea_structure d) = MEDIUM then (''swarm'', 5)
      else (''hive'', 3))"
  unfolding validate_fields validator_topology_cases by simp

theorem validator_topology_rule_witness:
  "(suggested_topology (validate_idea_structure ''simple task api''),
    estimated_agents (validate_idea_structure ''simple task api'')) = (''swarm'', 7)"
  using validator_topology_rule [of "''simple task api''"]
  by (simp add: validate_fields simple_text)

text \<open>
  C5 as stated fails: a complex description gets 7 agents, not \<open>min(8, 5 + 3)\<close>, and a
  simple description with a single parallelism keyword gets swarm, not hive.
\<close>

theorem validator_topology_counterexample:
  "complexity (validate_idea_structure ''distributed microservices real-time'') = COMPLEX
   \<and> estimated_agents (validate_idea_structure ''distributed microservices real-time'')
       \<noteq> min 8 (5 + complexity_scores_get (complexity_value COMPLEX))
   \<and> complexity (validate_idea_structure ''simple task api'') = SIMPLE
   \<and> count_hits parallel_indicators (lower ''simple task api'') < 2
   \<and> suggested_topology (validate_idea_structure ''simple task api'') \<noteq> ''hive''"
  using complexity_scores_get_value [of COMPLEX]
  by (simp add: validate_fields validator_topology_cases complex_text simple_text)

text \<open>
  C8. For every description the validator reports \<open>is_valid\<close> exactly when at least 3 of
  the 5 required elements (users, goal, inputs, outputs, runtime) are matched in the
  lower-cased text, and \<open>missing_elements\<close> lists exactly the elements that are not matched.
\<close>

theorem validate_valid_iff_three_of_five:
  "is_valid (validate_idea_structure d) =
     (3 \<le> length (filter (\<lambda>e. category_matched e d)
                     [''users'', ''goal'', ''inputs'', ''outputs'', ''runtime'']))
   \<and> missing_elements (validate_idea_structure d) =
       filter (\<lambda>e. \<not> category_matched e d)
         [''users'', ''goal'', ''inputs'', ''outputs'', ''runtime'']"
  unfolding validate_idea_structure_def Let_def
  by (simp add: check_elements_filter split_beta category_matched_def required_elements_def)

theorem validate_valid_iff_three_of_five_witness:
  "is_valid (validate_idea_structure ''Users goal DATA'')
   \<and> missing_elements (validate_idea_structure ''Users goal DATA'') = [''outputs'', ''runtime'']"
  using validate_valid_iff_three_of_five [of "''Users goal DATA''"]
  by (simp add: matched_users_goal_data)

text \<open>
  C9. For every idea and implementation output, \<open>needs_rollback\<close> holds exactly when the
  detected contradictions hold one of critical severity or at least two of high severity;
  \<open>can_proceed\<close> is its negation; no contradiction gives no rollback, and exactly one
  critical contradiction gives a rollback whatever the others are.
\<close>

theorem resolve_rollback_decision:
  "needs_rollback (resolve_contradictions idea impl) =
     ((\<exists>c \<in> set (detect_contradictions idea impl). severity c = SEV_CRITICAL)
      \<or> 2 \<le> length (filter (\<lambda>c. severity c = SEV_HIGH) (detect_contradictions idea impl)))
  \<and> can_proceed (resolve_contradictions idea impl) = (\<not> needs_rollback (resolve_contradictions idea impl))
  \<and> contradictions (resolve_contradictions idea impl) = detect_contradictions idea impl
  \<and> (detect_contradictions idea impl = [] \<longrightarrow>
        \<not> needs_rollback (resolve_contradictions idea impl) \<and> can_proceed (resolve_contradictions idea impl))
  \<and> (length (filter (\<lambda>c. severity c = SEV_CRITICAL) (detect_contradictions idea impl)) = 1 \<longrightarrow>
        needs_rollback (resolve_contradictions idea impl))"
  unfolding resolve_contradictions_def Let_def needs_rollback_of_def
  by (auto simp: filter_empty_conv)

theorem resolve_rollback_decision_witness:
  "needs_rollback (resolve_contradictions [] ''Real-time batch processing'')
   \<and> \<not> can_proceed (resolve_contradictions [] ''Real-time batch processing'')
   \<and> \<not> needs_rollback (resolve_contradictions ''a web shop'' ''Created a web shop'')
   \<and> can_proceed (resolve_contradictions ''a web shop'' ''Created a web shop'')"
proof -
  note batch = resolve_rollback_decision [of "[]" "''Real-time batch processing''"]
  note shop = resolve_rollback_decision [of "''a web shop''" "''Created a web shop''"]
  have 1: "needs_rollback (resolve_contradictions [] ''Real-time batch processing'')"
    using batch detect_batch by blast
  have 2: "\<not> can_proceed (resolve_contradictions [] ''Real-time batch processing'')"
    using batch 1 by blast
  have 3: "\<not> needs_rollback (resolve_contradictions ''a web shop'' ''Created a web shop'')
           \<and> can_proceed (resolve_contradictions ''a web shop'' ''Created a web shop'')"
    using shop detect_nothing by blast
  show ?thesis using 1 2 3 by blast
qed

text \<open>
  C3. For every idea text and complexity string, the attention analysis and the whole
  optimize call leave the catalog of a manager as its constructor builds it unchanged:
  the two targets the loop assigns \<open>critical\<close> to are critical in the catalog already.
\<close>

theorem catalog_unchanged:
  "snd (analyze_attention_requirements new_manager idea cplx) = new_manager
   \<and> snd (optimize_orchestration new_manager idea cplx) = new_manager"
  unfolding optimize_orchestration_def analyze_attention_requirements_def Let_def
  by (simp add: get_attention_priorities_new split_beta)

theorem catalog_unchanged_witness:
  "attention_targets (snd (optimize_orchestration new_manager ''something'' ''complex''))
     = define_attention_targets"
  using catalog_unchanged [of "''something''" "''complex''"]
  by (simp add: new_manager_def)

text \<open>
  C4, evaluated on the code. For every idea text and complexity the prioritization step
  returns, in this order, the two medium targets, the two low targets and the first high
  target: the sort key is the priority's name as a string, and in descending string
  order medium comes before low, low before high and high before critical. No critical
  target is returned.
\<close>

theorem attention_priorities_order:
  "map (\<lambda>t. (name t, priority t))
     (attention_priorities (fst (analyze_attention_requirements new_manager idea cplx)))
   = [(''progress_tracking'', PRIO_MEDIUM), (''resource_monitoring'', PRIO_MEDIUM),
      (''logging'', PRIO_LOW), (''documentation'', PRIO_LOW), (''agent_coordination'', PRIO_HIGH)]"
  unfolding analyze_attention_requirements_def Let_def
  by (simp add: get_attention_priorities_new split_beta sorted_catalog)

text \<open>
  C6, as amended. The clarity score is the number of matched categories among six, divided
  by 6: the five completeness categories, and a sixth (\<open>technical_details\<close>) that is
  matched when the lower-cased text contains api, database, framework, language or
  architecture. One tenth is added when the lower-cased text contains technical,
  architecture or framework; one tenth is subtracted when it contains something, anything
  or whatever; the result is clamped to the interval from 0 to 1.
\<close>

theorem clarity_score_six_categories:
  "analyze_idea_clarity d =
     min 1 (max 0 (of_nat (length (filter (\<lambda>e. category_matched e d)
                                     [''users'', ''goal'', ''inputs'', ''outputs'', ''runtime''])
                           + (if contains ''api'' (lower d) \<or> contains ''database'' (lower d)
                                 \<or> contains ''framework'' (lower d) \<or> contains ''language'' (lower d)
                                 \<or> contains ''architecture'' (lower d)
                              then 1 else 0)) / 6
                   + (if contains ''technical'' (lower d) \<or> contains ''architecture'' (lower d)
                         \<or> contains ''framework'' (lower d)
                      then 1 / 10 else 0)
                   - (if contains ''something'' (lower d) \<or> contains ''anything'' (lower d)
                         \<or> contains ''whatever'' (lower d)
                      then 1 / 10 else 0)))
   \<and> 0 \<le> analyze_idea_clarity d \<and> analyze_idea_clarity d \<le> 1"
proof -
  define n where
    "n = length (filter (\<lambda>e. category_matched e d)
                   [''users'', ''goal'', ''inputs'', ''outputs'', ''runtime''])
         + (if re_search [lit ''api'', lit ''database'', lit ''framework'',
                          lit ''language'', lit ''architecture''] (lower d)
            then 1 else 0)"
  have cnt: "count_found clarity_indicators (lower d) 0 = n"
    unfolding count_found_filter n_def clarity_found_elements by (rule add_0_left)
  have e: "analyze_idea_clarity d =
             min 1 (max 0 (of_nat n / 6 + technical_bonus (lower d) - vagueness_penalty (lower d)))"
    unfolding analyze_idea_clarity_def Let_def cnt clarity_total by simp
  have "analyze_idea_clarity d =
          min 1 (max 0 (of_nat n / 6 + technical_bonus (lower d) - vagueness_penalty (lower d)))
        \<and> 0 \<le> analyze_idea_clarity d \<and> analyze_idea_clarity d \<le> 1"
    unfolding e using clamp_bounds by blast
  then show ?thesis
    unfolding n_def technical_bonus_contains vagueness_penalty_contains technical_details_contains .
qed

theorem clarity_score_six_categories_witness:
  "analyze_idea_clarity ''A Framework'' = 1 / 6 + 1 / 10
   \<and> analyze_idea_clarity ''Whatever users need'' = 1 / 6 - 1 / 10"
  using clarity_score_six_categories [of "''A Framework''"]
        clarity_score_six_categories [of "''Whatever users need''"]
  by (simp add: framework_text whatever_text)

text \<open>
  C6 as stated fails: a text that matches the five completeness categories and nothing
  else scores five sixths, where the fraction of the five categories (with the same bonus
  and penalty, both 0 here) would give 1.
\<close>

theorem clarity_score_counterexample:
  "analyze_idea_clarity ''users goal inputs outputs runtime'' = 5 / 6
   \<and> min 1 (max 0 (of_nat (length (filter (\<lambda>e. category_matched e ''users goal inputs outputs runtime'')
                                     [''users'', ''goal'', ''inputs'', ''outputs'', ''runtime''])) / 5
                   + (if contains ''technical'' (lower ''users goal inputs outputs runtime'')
                         \<or> contains ''architecture'' (lower ''users goal inputs outputs runtime'')
                         \<or> contains ''framework'' (lower ''users goal inputs outputs runtime'')
                      then 1 / 10 else 0)
                   - (if contains ''something'' (lower ''users goal inputs outputs runtime'')
                         \<or> contains ''anything'' (lower ''users goal inputs outputs runtime'')
                         \<or> contains ''whatever'' (lower ''users goal inputs outputs runtime'')
                      then 1 / 10 else 0))) = (1 :: rat)"
  by (simp add: five_text five_text_clarity)

text \<open>
  C1, evaluated on the code. In a run of a fresh pipeline no rollback command is ever
  executed, whatever the step table and the world: the search for the previous successful
  stage walks the stages from the last one down and stops at the failed stage, so it only
  sees stages that have no result yet. In particular, when Validation, Analysis and
  Planning succeed and Implementation fails, Planning has a rollback command and it is
  not run.
\<close>

theorem rollback_runs_no_command:
  "rolled_back (fresh_run env steps w) = []
   \<and> map_option status (results (fresh_run (fails_at IMPLEMENTATION) define_pipeline_steps ()) PLANNING)
       = Some SUCCESS
   \<and> map_option status (results (fresh_run (fails_at IMPLEMENTATION) define_pipeline_steps ())
       IMPLEMENTATION) = Some FAILED
   \<and> rollback_command (define_pipeline_steps PLANNING) \<noteq> None
   \<and> rolled_back (fresh_run (fails_at IMPLEMENTATION) define_pipeline_steps ()) = []"
  using fresh_run_no_rollback[of env steps w]
    fresh_run_no_rollback[of "fails_at IMPLEMENTATION" define_pipeline_steps "()"]
  by (simp add: implementation_fails_run)

text \<open>
  C7, as amended. For every idea text that contains, of the architecture keywords, exactly
  real-time and distributed, and none of the technology keywords, the engine finds on the
  implementation output of scenario 3 exactly one contradiction, an architecture mismatch
  of high severity for real-time; it returns \<open>needs_rollback\<close> false and \<open>can_proceed\<close>
  true.
\<close>

theorem scenario_three_no_rollback:
  assumes "\<forall>k \<in> set arch_keywords.
             contains k (lower idea) = (k = ''real-time'' \<or> k = ''distributed'')"
    and "\<forall>k \<in> set tech_keywords. \<not> contains k (lower idea)"
  shows "map (\<lambda>c. (c_type c, severity c, c_description c))
           (contradictions (resolve_contradictions idea scenario_output))
         = [(ARCHITECTURE_MISMATCH, SEV_HIGH, ''Missing architecture components for real-time'')]
       \<and> \<not> needs_rollback (resolve_contradictions idea scenario_output)
       \<and> can_proceed (resolve_contradictions idea scenario_output)"
  unfolding resolve_fields
  using scenario_contradictions[OF only_realtime_distributed[OF assms]]
    scenario_no_rollback[OF only_realtime_distributed[OF assms]] by blast

theorem scenario_three_no_rollback_witness:
  "map (\<lambda>c. (c_type c, severity c, c_description c))
     (contradictions (resolve_contradictions ''Real-time and distributed'' scenario_output))
   = [(ARCHITECTURE_MISMATCH, SEV_HIGH, ''Missing architecture components for real-time'')]
   \<and> \<not> needs_rollback (resolve_contradictions ''Real-time and distributed'' scenario_output)
   \<and> can_proceed (resolve_contradictions ''Real-time and distributed'' scenario_output)"
  using scenario_three_no_rollback [OF realtime_distributed_idea] .

text \<open>
  C7 as stated fails: on an idea with the two keywords and no other, the rollback decision
  is false (one contradiction of high severity is below the threshold of two).
\<close>

theorem scenario_three_counterexample:
  "contains ''real-time'' (lower ''Real-time and distributed'')
   \<and> contains ''distributed'' (lower ''Real-time and distributed'')
   \<and> extract_architecture_requirements ''Real-time and distributed'' = [''real-time'', ''distributed'']
   \<and> extract_technologies ''Real-time and distributed'' = []
   \<and> \<not> needs_rollback (resolve_contradictions ''Real-time and distributed'' scenario_output)"
  unfolding resolve_fields
  using realtime_distributed_contained only_realtime_distributed[OF realtime_distributed_idea]
    scenario_no_rollback[OF only_realtime_distributed[OF realtime_distributed_idea]]
  by blast

text \<open>
  C10. In every run of a fresh pipeline, with any step table and any world: every stage
  with a recorded result has all its dependencies recorded with status success; the
  commands executed are exactly those of the stages with a recorded result, in stage
  order; when the dependency check of the stage at hand fails the loop returns the state
  as it is (nothing is executed or recorded for that stage or a later one); a stage
  without a result is followed by stages without results only; and after a stage whose
  result is not a success, or whose output fails its validation, no later stage has a
  result.
\<close>

theorem dependency_gate:
  "(\<forall>s r. results (fresh_run env steps w) s = Some r \<longrightarrow>
      (\<forall>d \<in> set (dependencies (steps s)).
         \<exists>r'. results (fresh_run env steps w) d = Some r' \<and> status r' = SUCCESS))
   \<and> executed (fresh_run env steps w) =
       map (\<lambda>s. command (steps s))
         (filter (\<lambda>s. results (fresh_run env steps w) s \<noteq> None) all_stages)
   \<and> (\<forall>s rest st. \<not> check_dependencies (results st) (dependencies (pipeline_steps st s)) \<longrightarrow>
         exec_stages env (s # rest) st = st)
   \<and> (\<forall>s. results (fresh_run env steps w) s = None \<longrightarrow>
         (\<forall>t \<in> set (later_stages s). results (fresh_run env steps w) t = None))
   \<and> (\<forall>s r. results (fresh_run env steps w) s = Some r
            \<and> (status r \<noteq> SUCCESS \<or> \<not> validate_step_output (steps s) (r_output r)) \<longrightarrow>
         (\<forall>t \<in> set (later_stages s). results (fresh_run env steps w) t = None))"
proof (intro conjI allI impI)
  fix s r assume "results (fresh_run env steps w) s = Some r"
  then show "\<forall>d \<in> set (dependencies (steps s)).
         \<exists>r'. results (fresh_run env steps w) d = Some r' \<and> status r' = SUCCESS"
    by (rule fresh_run_recorded_dependencies)
next
  show "executed (fresh_run env steps w) =
       map (\<lambda>s. command (steps s))
         (filter (\<lambda>s. results (fresh_run env steps w) s \<noteq> None) all_stages)"
    by (rule fresh_run_executed)
next
  fix s rest and st :: "'a pipeline"
  assume "\<not> check_dependencies (results st) (dependencies (pipeline_steps st s))"
  then show "exec_stages env (s # rest) st = st" by (rule exec_stages_unmet)
next
  fix s assume "results (fresh_run env steps w) s = None"
  then show "\<forall>t \<in> set (later_stages s). results (fresh_run env steps w) t = None"
    using fresh_run_halts[of env steps w s] by blast
next
  fix s r assume "results (fresh_run env steps w) s = Some r
            \<and> (status r \<noteq> SUCCESS \<or> \<not> validate_step_output (steps s) (r_output r))"
  then show "\<forall>t \<in> set (later_stages s). results (fresh_run env steps w) t = None"
    using fresh_run_halts[of env steps w s] by blast
qed

theorem dependency_gate_witness:
  "results (fresh_run (fails_at ANALYSIS) define_pipeline_steps ()) PLANNING = None
   \<and> results (fresh_run (fails_at ANALYSIS) define_pipeline_steps ()) IMPLEMENTATION = None
   \<and> results (fresh_run (fails_at ANALYSIS) define_pipeline_steps ()) TESTING = None
   \<and> results (fresh_run (fails_at ANALYSIS) define_pipeline_steps ()) DEPLOYMENT = None
   \<and> executed (fresh_run (fails_at ANALYSIS) define_pipeline_steps ()) =
       [command (define_pipeline_steps VALIDATION), command (define_pipeline_steps ANALYSIS)]"
proof -
  let ?fin = "fresh_run (fails_at ANALYSIS) define_pipeline_steps ()"
  note deps = dependency_gate [of "fails_at ANALYSIS" define_pipeline_steps "()"]
  note logged = deps[THEN conjunct2, THEN conjunct1]
  note halted = deps[THEN conjunct2, THEN conjunct2, THEN conjunct2, THEN conjunct2]
  obtain r where r: "results ?fin ANALYSIS = Some r" "status r = FAILED"
    using analysis_fails_run(2) by auto
  have "results ?fin ANALYSIS = Some r
        \<and> (status r \<noteq> SUCCESS
           \<or> \<not> validate_step_output (define_pipeline_steps ANALYSIS) (r_output r))"
    using r by simp
  then have "\<forall>t \<in> set (later_stages ANALYSIS). results ?fin t = None"
    using halted by blast
  then have none: "results ?fin PLANNING = None" "results ?fin IMPLEMENTATION = None"
    "results ?fin TESTING = None" "results ?fin DEPLOYMENT = None"
    unfolding later_analysis by simp_all
  have v: "results ?fin VALIDATION \<noteq> None"
    using analysis_fails_run(1) by auto
  have a: "results ?fin ANALYSIS \<noteq> None"
    using r(1) by simp
  have flt: "filter (\<lambda>s. results ?fin s \<noteq> None) all_stages = [VALIDATION, ANALYSIS]"
    unfolding all_stages_def filter.simps using none v a by (simp only: if_True if_False not_True_eq_False simp_thms)
  have "executed ?fin = [command (define_pipeline_steps VALIDATION), command (define_pipeline_steps ANALYSIS)]"
    unfolding logged flt by (simp only: list.map)
  then show ?thesis using none by blast
qed

end
